theory Spec2Isabelle
  imports Complex_Main "HOL-Library.Log_Nat" "HOL-Library.Sublist"
begin

section \<open>Python strings\<close>

text \<open>
  Cell text is a \<^typ>\<open>string\<close>; a character is a code point below 256 (Latin-1), and
  text with other code points is outside the model. Among these code points
  \<^verbatim>\<open>str.isspace\<close>, which \<^verbatim>\<open>strip\<close>, \<^verbatim>\<open>split\<close>, \<^verbatim>\<open>float\<close> and \<^verbatim>\<open>\s\<close> use, holds of the
  ASCII whitespace, of the separators 0x1C to 0x1F, of the next-line character 0x85 and
  of the no-break space 0xA0; \<^verbatim>\<open>\d\<close> and the digits of \<^verbatim>\<open>float\<close> are the ten ASCII
  digits; \<^verbatim>\<open>str.lower\<close> folds the ASCII capitals and the accented capitals 0xC0 to
  0xDE, the multiplication sign 0xD7 apart.
\<close>

definition space_chars :: string where
  "space_chars = [CHR 0x09, CHR 0x0A, CHR 0x0B, CHR 0x0C, CHR 0x0D,
                  CHR 0x1C, CHR 0x1D, CHR 0x1E, CHR 0x1F, CHR 0x20, CHR 0x85, CHR 0xA0]"

definition digit_chars :: string where
  "digit_chars = ''0123456789''"

definition upper_chars :: string where
  "upper_chars = ''ABCDEFGHIJKLMNOPQRSTUVWXYZ''"

definition lower_chars :: string where
  "lower_chars = ''abcdefghijklmnopqrstuvwxyz''"

definition upper_latin :: string where
  "upper_latin = [CHR 0xC0, CHR 0xC1, CHR 0xC2, CHR 0xC3, CHR 0xC4, CHR 0xC5, CHR 0xC6, CHR 0xC7,
                  CHR 0xC8, CHR 0xC9, CHR 0xCA, CHR 0xCB, CHR 0xCC, CHR 0xCD, CHR 0xCE, CHR 0xCF,
                  CHR 0xD0, CHR 0xD1, CHR 0xD2, CHR 0xD3, CHR 0xD4, CHR 0xD5, CHR 0xD6,
                  CHR 0xD8, CHR 0xD9, CHR 0xDA, CHR 0xDB, CHR 0xDC, CHR 0xDD, CHR 0xDE]"

definition lower_latin :: string where
  "lower_latin = [CHR 0xE0, CHR 0xE1, CHR 0xE2, CHR 0xE3, CHR 0xE4, CHR 0xE5, CHR 0xE6, CHR 0xE7,
                  CHR 0xE8, CHR 0xE9, CHR 0xEA, CHR 0xEB, CHR 0xEC, CHR 0xED, CHR 0xEE, CHR 0xEF,
                  CHR 0xF0, CHR 0xF1, CHR 0xF2, CHR 0xF3, CHR 0xF4, CHR 0xF5, CHR 0xF6,
                  CHR 0xF8, CHR 0xF9, CHR 0xFA, CHR 0xFB, CHR 0xFC, CHR 0xFD, CHR 0xFE]"

definition is_space :: "char \<Rightarrow> bool" where
  "is_space c = (c \<in> set space_chars)"

definition is_digit :: "char \<Rightarrow> bool" where
  "is_digit c = (c \<in> set digit_chars)"

definition lower_char :: "char \<Rightarrow> char" where
  "lower_char c = (case map_of (zip (upper_chars @ upper_latin) (lower_chars @ lower_latin)) c of
                     Some d \<Rightarrow> d | None \<Rightarrow> c)"

text \<open>The capital of an ASCII letter, for the letters of a pattern under \<^verbatim>\<open>re.I\<close>.\<close>

definition upper_char :: "char \<Rightarrow> char" where
  "upper_char c = (case map_of (zip lower_chars upper_chars) c of Some d \<Rightarrow> d | None \<Rightarrow> c)"

text \<open>\<^verbatim>\<open>s.lower()\<close>\<close>

definition lower :: "string \<Rightarrow> string" where
  "lower s = map lower_char s"

text \<open>\<^verbatim>\<open>s.strip()\<close>\<close>

definition strip :: "string \<Rightarrow> string" where
  "strip s = rev (dropWhile is_space (rev (dropWhile is_space s)))"

text \<open>\<^verbatim>\<open>a in s\<close> for strings\<close>

fun str_in :: "string \<Rightarrow> string \<Rightarrow> bool" where
  "str_in a [] = (a = [])"
| "str_in a (c # cs) = (prefix a (c # cs) \<or> str_in a cs)"

text \<open>\<^verbatim>\<open>s.startswith(a)\<close>\<close>

definition startswith :: "string \<Rightarrow> string \<Rightarrow> bool" where
  "startswith s a = prefix a s"

text \<open>
  \<^verbatim>\<open>s.replace(old, new)\<close> for a non-empty \<open>old\<close> (every call of the source has one):
  occurrences are replaced from the left and do not overlap. The counter is the number
  of characters of a replaced occurrence still to be skipped.
\<close>

fun replace_from :: "string \<Rightarrow> string \<Rightarrow> nat \<Rightarrow> string \<Rightarrow> string" where
  "replace_from old new k [] = []"
| "replace_from old new (Suc k) (c # cs) = replace_from old new k cs"
| "replace_from old new 0 (c # cs) =
     (if old \<noteq> [] \<and> prefix old (c # cs) then new @ replace_from old new (length old - 1) cs
      else c # replace_from old new 0 cs)"

definition replace :: "string \<Rightarrow> string \<Rightarrow> string \<Rightarrow> string" where
  "replace s old new = replace_from old new 0 s"

text \<open>\<^verbatim>\<open>s.split()\<close>: the maximal runs of non-whitespace characters.\<close>

fun split_from :: "string \<Rightarrow> string \<Rightarrow> string list" where
  "split_from w [] = (if w = [] then [] else [rev w])"
| "split_from w (c # cs) =
     (if is_space c then (if w = [] then split_from [] cs else rev w # split_from [] cs)
      else split_from (c # w) cs)"

definition split :: "string \<Rightarrow> string list" where
  "split s = split_from [] s"

text \<open>\<^verbatim>\<open>sep.join(xs)\<close>\<close>

fun join :: "string \<Rightarrow> string list \<Rightarrow> string" where
  "join sep [] = []"
| "join sep [x] = x"
| "join sep (x # y # ys) = x @ sep @ join sep (y # ys)"

text \<open>\<^verbatim>\<open>s.split(sep)[0]\<close> for a non-empty \<open>sep\<close>: the text before its first occurrence.\<close>

fun split_first :: "string \<Rightarrow> string \<Rightarrow> string" where
  "split_first sep [] = []"
| "split_first sep (c # cs) = (if prefix sep (c # cs) then [] else c # split_first sep cs)"

section \<open>Regular expressions\<close>

text \<open>
  The patterns of the source are built from character classes, repetitions of a character
  class (greedy or lazy), sequence, alternation, capturing groups and the end anchor.
  \<open>mrx\<close> is a backtracking matcher in the order of Python's \<^verbatim>\<open>re\<close>: alternatives
  from the left, a greedy repetition from the longest, a lazy one from the shortest. The
  continuation is the rest of the pattern.
\<close>

datatype cls = Any | In string | NotIn string

fun in_cls :: "cls \<Rightarrow> char \<Rightarrow> bool" where
  "in_cls Any c = True"
| "in_cls (In cs) c = (c \<in> set cs)"
| "in_cls (NotIn cs) c = (c \<notin> set cs)"

datatype rx =
    Eps
  | Atom cls
  | Rep cls nat "nat option" bool
  | Seq rx rx
  | Alt rx rx
  | Grp nat rx
  | Eol

type_synonym caps = "nat \<rightharpoonup> string"

fun below :: "nat option \<Rightarrow> nat \<Rightarrow> bool" where
  "below None n = True"
| "below (Some h) n = (n < h)"

fun rep_m :: "cls \<Rightarrow> nat \<Rightarrow> nat option \<Rightarrow> bool \<Rightarrow> nat \<Rightarrow> string \<Rightarrow> (string \<Rightarrow> 'a option) \<Rightarrow> 'a option" where
  "rep_m cl lo hi g n [] k = (if lo \<le> n then k [] else None)"
| "rep_m cl lo hi g n (x # xs) k =
     (if in_cls cl x \<and> below hi n then
        (if g then
           (case rep_m cl lo hi g (Suc n) xs k of
              Some r \<Rightarrow> Some r
            | None \<Rightarrow> (if lo \<le> n then k (x # xs) else None))
         else
           (case (if lo \<le> n then k (x # xs) else None) of
              Some r \<Rightarrow> Some r
            | None \<Rightarrow> rep_m cl lo hi g (Suc n) xs k))
      else (if lo \<le> n then k (x # xs) else None))"

fun mrx :: "rx \<Rightarrow> string \<Rightarrow> caps \<Rightarrow> (string \<Rightarrow> caps \<Rightarrow> caps option) \<Rightarrow> caps option" where
  "mrx Eps s c k = k s c"
| "mrx (Atom cl) s c k =
     (case s of [] \<Rightarrow> None | x # xs \<Rightarrow> if in_cls cl x then k xs c else None)"
| "mrx (Rep cl lo hi g) s c k = rep_m cl lo hi g 0 s (\<lambda>s'. k s' c)"
| "mrx (Seq a b) s c k = mrx a s c (\<lambda>s' c'. mrx b s' c' k)"
| "mrx (Alt a b) s c k = (case mrx a s c k of Some r \<Rightarrow> Some r | None \<Rightarrow> mrx b s c k)"
| "mrx (Grp n r) s c k =
     mrx r s c (\<lambda>s' c'. k s' (c'(n \<mapsto> take (length s - length s') s)))"
| "mrx Eol s c k = (if s = [] \<or> s = [CHR 0x0A] then k s c else None)"

text \<open>\<^verbatim>\<open>pattern.match(s)\<close>: a match at the start of \<open>s\<close>; the result is the groups.\<close>

definition rx_match :: "rx \<Rightarrow> string \<Rightarrow> caps option" where
  "rx_match r s = mrx r s Map.empty (\<lambda>s' c. Some c)"

text \<open>\<^verbatim>\<open>pattern.search(s)\<close>: the match at the leftmost position that has one.\<close>

fun rx_search :: "rx \<Rightarrow> string \<Rightarrow> caps option" where
  "rx_search r [] = rx_match r []"
| "rx_search r (x # xs) =
     (case rx_match r (x # xs) of Some c \<Rightarrow> Some c | None \<Rightarrow> rx_search r xs)"

text \<open>The letters of a word, each in either case (\<^verbatim>\<open>re.I\<close>).\<close>

fun word_i :: "string \<Rightarrow> rx" where
  "word_i [] = Eps"
| "word_i (c # cs) =
     Seq (Atom (In [lower_char c, upper_char c])) (word_i cs)"

section \<open>Python floats\<close>

text \<open>
  A float is a sign with a magnitude that is a binary64 value, an infinity or NaN.
  \<open>round_b64\<close> rounds a non-negative rational to the nearest binary64 value, ties to the
  even mantissa; the result is \<open>None\<close> where the rounded value is beyond the largest
  finite one.
\<close>

datatype pyfloat = Fin bool rat | Inf bool | NaN

definition floor_log2 :: "rat \<Rightarrow> int" where
  "floor_log2 q = (let (a, b) = quotient_of q; k = bitlen a - bitlen b
                   in if 2 powi k \<le> q then k else k - 1)"

definition round_half_even :: "rat \<Rightarrow> int" where
  "round_half_even x = (let f = \<lfloor>x\<rfloor>; d = x - of_int f in
     if d < 1 / 2 then f else if 1 / 2 < d then f + 1 else if even f then f else f + 1)"

definition round_b64 :: "rat \<Rightarrow> rat option" where
  "round_b64 q = (if q = 0 then Some 0 else
     let e = max (floor_log2 q - 52) (- 1074);
         m = round_half_even (q / 2 powi e);
         v = of_int m * 2 powi e
     in if 2 ^ 1024 \<le> v then None else Some v)"

subsection \<open>\<^verbatim>\<open>float(s)\<close>\<close>

text \<open>
  The string is stripped; an optional sign is followed by \<^verbatim>\<open>inf\<close>, \<^verbatim>\<open>infinity\<close>
  or \<^verbatim>\<open>nan\<close> in any case, or by a decimal number: digits with single underscores
  between them, an optional point and fraction, an optional exponent. \<open>None\<close> is
  ValueError. A value too large for a float is an infinity.
\<close>

definition digit_val :: "char \<Rightarrow> int" where
  "digit_val c = (case map_of (zip digit_chars [0, 1, 2, 3, 4, 5, 6, 7, 8, 9]) c of
                    Some d \<Rightarrow> d | None \<Rightarrow> 0)"

definition int_of_digits :: "string \<Rightarrow> int" where
  "int_of_digits ds = foldl (\<lambda>a c. 10 * a + digit_val c) 0 ds"

fun digits_us :: "string \<Rightarrow> string \<times> string" where
  "digits_us [] = ([], [])"
| "digits_us [c] = (if is_digit c then ([c], []) else ([], [c]))"
| "digits_us (c # d # cs) =
     (if is_digit c then (case digits_us (d # cs) of (ds, r) \<Rightarrow> (c # ds, r))
      else if c = CHR ''_'' \<and> is_digit d then (case digits_us cs of (ds, r) \<Rightarrow> (d # ds, r))
      else ([], c # d # cs))"

definition digitpart :: "string \<Rightarrow> (string \<times> string) option" where
  "digitpart s = (case s of [] \<Rightarrow> None
     | c # cs \<Rightarrow> if is_digit c then (case digits_us cs of (ds, r) \<Rightarrow> Some (c # ds, r)) else None)"

definition opt_sign :: "string \<Rightarrow> bool \<times> string" where
  "opt_sign s = (case s of [] \<Rightarrow> (False, [])
     | c # cs \<Rightarrow> if c = CHR ''-'' then (True, cs) else if c = CHR ''+'' then (False, cs)
                else (False, c # cs))"

definition float_number :: "string \<Rightarrow> (string \<times> string \<times> string) option" where
  "float_number s = (case digitpart s of
       Some (ip, r) \<Rightarrow>
         (case r of [] \<Rightarrow> Some (ip, [], [])
          | c # r' \<Rightarrow>
              if c = CHR ''.'' then
                (case digitpart r' of Some (fp, r'') \<Rightarrow> Some (ip, fp, r'')
                                    | None \<Rightarrow> Some (ip, [], r'))
              else Some (ip, [], c # r'))
     | None \<Rightarrow>
         (case s of [] \<Rightarrow> None
          | c # r' \<Rightarrow>
              if c = CHR ''.'' then
                (case digitpart r' of Some (fp, r'') \<Rightarrow> Some ([], fp, r'') | None \<Rightarrow> None)
              else None))"

definition float_exponent :: "string \<Rightarrow> int option" where
  "float_exponent s = (case s of [] \<Rightarrow> Some 0
     | c # r \<Rightarrow>
         if c = CHR ''e'' \<or> c = CHR ''E'' then
           (case opt_sign r of (neg, r') \<Rightarrow>
              (case digitpart r' of
                 Some (ds, []) \<Rightarrow> Some (if neg then - int_of_digits ds else int_of_digits ds)
               | Some (ds, x # xs) \<Rightarrow> None
               | None \<Rightarrow> None))
         else None)"

definition py_float :: "string \<Rightarrow> pyfloat option" where
  "py_float s = (case opt_sign (strip s) of (neg, u) \<Rightarrow>
     if lower u = ''inf'' \<or> lower u = ''infinity'' then Some (Inf neg)
     else if lower u = ''nan'' then Some NaN
     else (case float_number u of None \<Rightarrow> None
       | Some (ip, fp, r) \<Rightarrow>
           (case float_exponent r of None \<Rightarrow> None
            | Some ex \<Rightarrow>
                (case round_b64 (of_int (int_of_digits (ip @ fp)) * 10 powi (ex - int (length fp))) of
                   None \<Rightarrow> Some (Inf neg)
                 | Some v \<Rightarrow> Some (Fin neg v)))))"

subsection \<open>Formatting\<close>

definition digit_char :: "int \<Rightarrow> char" where
  "digit_char d = digit_chars ! nat (d mod 10)"

text \<open>The decimal digits of a non-negative integer.\<close>

function show_nat :: "int \<Rightarrow> string" where
  "show_nat n = (if n < 10 then [digit_char n] else show_nat (n div 10) @ [digit_char (n mod 10)])"
  by pat_completeness auto
termination
  by (relation "measure nat") auto

declare show_nat.simps [simp del]

text \<open>The thousands separators of the format specification \<^verbatim>\<open>,\<close>.\<close>

fun group3 :: "string \<Rightarrow> string" where
  "group3 ds = (if length ds \<le> 3 then ds
                else group3 (take (length ds - 3) ds) @ '','' @ drop (length ds - 3) ds)"

declare group3.simps [simp del]

definition sign_str :: "bool \<Rightarrow> string" where
  "sign_str neg = (if neg then ''-'' else [])"

text \<open>
  \<^verbatim>\<open>f"{n:,.2f}"\<close>: the exact value rounded to hundredths, ties to even, the integer
  part grouped in threes.
\<close>

fun fmt_comma_2f :: "pyfloat \<Rightarrow> string" where
  "fmt_comma_2f (Fin neg v) =
     (let c = round_half_even (v * 100)
      in sign_str neg @ group3 (show_nat (c div 100)) @ ''.''
         @ [digit_char (c mod 100 div 10), digit_char (c mod 10)])"
| "fmt_comma_2f (Inf neg) = sign_str neg @ ''inf''"
| "fmt_comma_2f NaN = ''nan''"

definition floor_log10 :: "rat \<Rightarrow> int" where
  "floor_log10 q = (let (a, b) = quotient_of q;
                        k = int (length (show_nat a)) - int (length (show_nat b))
                    in if 10 powi k \<le> q then k else k - 1)"

text \<open>
  \<^verbatim>\<open>f"{n}"\<close> is \<^verbatim>\<open>repr(n)\<close>: the shortest decimal digits that read back as the same
  float (the nearest to it among those of that length), in positional notation when the
  decimal point lies within the range that \<^verbatim>\<open>repr\<close> uses for it, in exponent notation
  otherwise.
\<close>

definition repr_try :: "rat \<Rightarrow> nat \<Rightarrow> (int \<times> int) option" where
  "repr_try v n = (let k = floor_log10 v - int n + 1;
                       lo = \<lfloor>v / 10 powi k\<rfloor>; hi = lo + 1;
                       oklo = (round_b64 (of_int lo * 10 powi k) = Some v);
                       okhi = (round_b64 (of_int hi * 10 powi k) = Some v);
                       dl = v - of_int lo * 10 powi k;
                       dh = of_int hi * 10 powi k - v
     in if oklo \<and> (\<not> okhi \<or> dl < dh \<or> (dl = dh \<and> even lo)) then Some (lo, k)
        else if okhi then Some (hi, k) else None)"

fun repr_search :: "rat \<Rightarrow> nat \<Rightarrow> nat \<Rightarrow> int \<times> int" where
  "repr_search v n 0 = (\<lfloor>v / 10 powi (floor_log10 v - int n + 1)\<rfloor>, floor_log10 v - int n + 1)"
| "repr_search v n (Suc fuel) =
     (case repr_try v n of Some r \<Rightarrow> r | None \<Rightarrow> repr_search v (Suc n) fuel)"

definition strip_zeros :: "string \<Rightarrow> string" where
  "strip_zeros ds = rev (dropWhile (\<lambda>c. c = CHR ''0'') (rev ds))"

definition repr_pos :: "rat \<Rightarrow> string" where
  "repr_pos v = (case repr_search v 1 16 of (d, k) \<Rightarrow>
     let full = show_nat d;
         ds = strip_zeros full;
         decpt = int (length full) + k
     in if - 4 < decpt \<and> decpt \<le> 16 then
          (if decpt \<le> 0 then ''0.'' @ replicate (nat (- decpt)) (CHR ''0'') @ ds
           else if int (length ds) \<le> decpt then
             ds @ replicate (nat (decpt - int (length ds))) (CHR ''0'') @ ''.0''
           else take (nat decpt) ds @ ''.'' @ drop (nat decpt) ds)
        else
          (let ex = decpt - 1;
               es = show_nat \<bar>ex\<bar>
           in take 1 ds @ (if length ds \<le> 1 then [] else ''.'' @ drop 1 ds) @ ''e''
              @ (if ex < 0 then ''-'' else ''+'') @ (if length es < 2 then ''0'' @ es else es)))"

fun float_repr :: "pyfloat \<Rightarrow> string" where
  "float_repr (Fin neg v) = sign_str neg @ (if v = 0 then ''0.0'' else repr_pos v)"
| "float_repr (Inf neg) = sign_str neg @ ''inf''"
| "float_repr NaN = ''nan''"

section \<open>Tables and records\<close>

text \<open>
  A table is what the table extraction of the PDF library returns for a page: rows of
  cells, each cell a string or \<^verbatim>\<open>None\<close>. The branches of the source for cells that
  are Python numbers are not reached by such cells and are not part of the model.
  An output record has the five columns of \<^verbatim>\<open>OUTPUT_COLUMNS\<close>.
\<close>

type_synonym cell = "string option"
type_synonym row = "cell list"
type_synonym table = "row list"

record out_rec =
  Part_Number :: string
  Series :: string
  Description :: string
  Price :: string
  Discount :: string

text \<open>\<^verbatim>\<open>m.group(n)\<close> for a group that takes part in every match of its pattern.\<close>

definition m_group :: "caps \<Rightarrow> nat \<Rightarrow> string" where
  "m_group c n = (case c n of Some g \<Rightarrow> g | None \<Rightarrow> [])"

section \<open>The original parser\<close>

subsection \<open>Patterns\<close>

definition spaces :: rx where
  "spaces = Rep (In space_chars) 0 None True"

definition opt :: "rx \<Rightarrow> rx" where
  "opt r = Alt r Eps"

text \<open>\<^verbatim>\<open>\$\s*([\d,]+(?:\.\d{2})?)\<close>\<close>

definition RE_PRICE :: rx where
  "RE_PRICE =
     Seq (Atom (In ''$'')) (Seq spaces
       (Grp 1 (Seq (Rep (In (digit_chars @ '','')) 1 None True)
                   (opt (Seq (Atom (In ''.'')) (Rep (In digit_chars) 2 (Some 2) True))))))"

text \<open>\<^verbatim>\<open>(\d+(?:\.\d+)?)\s*%\<close>\<close>

definition RE_DISCOUNT :: rx where
  "RE_DISCOUNT =
     Seq (Grp 1 (Seq (Rep (In digit_chars) 1 None True)
                     (opt (Seq (Atom (In ''.'')) (Rep (In digit_chars) 1 None True)))))
         (Seq spaces (Atom (In ''%'')))"

text \<open>\<^verbatim>\<open>^\s*(\d{2,4})\s*$\<close>, used with \<^verbatim>\<open>match\<close>, which anchors it at the start.\<close>

definition RE_SERIES_NUM :: rx where
  "RE_SERIES_NUM =
     Seq spaces (Seq (Grp 1 (Rep (In digit_chars) 2 (Some 4) True)) (Seq spaces Eol))"

subsection \<open>Cell helpers\<close>

definition clean_text :: "string \<Rightarrow> string" where
  "clean_text s =
     (if s = [] then []
      else strip (join '' '' (split (replace (replace s [CHR 0x0A] ''; '') [CHR 0x0D] '' ''))))"

definition clean_part_number :: "string \<Rightarrow> string" where
  "clean_part_number s = (if s = [] then [] else join '' '' (split (strip s)))"

definition extract_price_from_cell :: "cell \<Rightarrow> string option" where
  "extract_price_from_cell val =
     (case val of None \<Rightarrow> None
      | Some v \<Rightarrow>
          (let s = strip v in
           case rx_search RE_PRICE s of
             Some m \<Rightarrow>
               (case py_float (replace (m_group m 1) '','' []) of
                  Some n \<Rightarrow> Some (''$'' @ fmt_comma_2f n)
                | None \<Rightarrow> Some (''$'' @ m_group m 1))
           | None \<Rightarrow>
               (case py_float (strip (replace (replace s '','' []) ''$'' [])) of
                  Some n \<Rightarrow> Some (''$'' @ fmt_comma_2f n)
                | None \<Rightarrow> None)))"

definition extract_discount_from_cell :: "cell \<Rightarrow> string option" where
  "extract_discount_from_cell val =
     (case val of None \<Rightarrow> None
      | Some v \<Rightarrow>
          (let s = strip v in
           case rx_search RE_DISCOUNT s of
             Some m \<Rightarrow> Some (m_group m 1 @ ''%'')
           | None \<Rightarrow>
               (case py_float (strip (replace (replace s ''%'' []) '','' [])) of
                  Some n \<Rightarrow> Some (float_repr n @ ''%'')
                | None \<Rightarrow> None)))"

definition series_numeric_only :: "string \<Rightarrow> string" where
  "series_numeric_only v =
     (if v = [] then []
      else (let s = strip v in
            case rx_match RE_SERIES_NUM s of
              Some m \<Rightarrow> m_group m 1
            | None \<Rightarrow> filter is_digit s))"

subsection \<open>Column roles\<close>

text \<open>The dictionary of column indices, one entry per role.\<close>

record indices =
  part_idx :: "nat option"
  series_idx :: "nat option"
  description_idx :: "nat option"
  price_idx :: "nat option"
  discount_idx :: "nat option"

definition no_indices :: indices where
  "no_indices = \<lparr>part_idx = None, series_idx = None, description_idx = None,
                  price_idx = None, discount_idx = None\<rparr>"

definition header_cell :: "cell \<Rightarrow> string" where
  "header_cell c = (case c of None \<Rightarrow> [] | Some s \<Rightarrow> strip (lower s))"

text \<open>One pass of the loop over the header cells: the \<^verbatim>\<open>if\<close>/\<^verbatim>\<open>elif\<close> chain.\<close>

definition assign_role :: "string \<Rightarrow> indices \<Rightarrow> nat \<times> string \<Rightarrow> indices" where
  "assign_role joined ix ic =
     (case ic of (i, cell) \<Rightarrow>
        if str_in ''part'' cell \<and> (str_in ''number'' cell \<or> str_in ''no'' cell \<or> str_in ''nr'' cell)
          then ix\<lparr>part_idx := Some i\<rparr>
        else if str_in ''series'' cell then ix\<lparr>series_idx := Some i\<rparr>
        else if str_in ''desc'' cell \<or> str_in ''product'' cell then ix\<lparr>description_idx := Some i\<rparr>
        else if str_in ''price'' cell \<or> (str_in ''unit'' cell \<and> str_in ''price'' joined)
          then ix\<lparr>price_idx := Some i\<rparr>
        else if str_in ''discount'' cell \<or> str_in ''disc'' cell then ix\<lparr>discount_idx := Some i\<rparr>
        else ix)"

definition infer_column_indices :: "row \<Rightarrow> indices" where
  "infer_column_indices header_row =
     (let h = map header_cell header_row;
          ix = foldl (assign_role (join '' '' h)) no_indices (enumerate 0 h);
          ix1 = (if price_idx ix = None \<and> 4 \<le> length h
                 then ix\<lparr>price_idx := Some (length h - 2)\<rparr> else ix)
      in if discount_idx ix1 = None \<and> 5 \<le> length h
         then ix1\<lparr>discount_idx := Some (length h - 1)\<rparr> else ix1)"

text \<open>The content-driven inference: which column most often holds a price, a discount.\<close>

definition cell_text :: "cell \<Rightarrow> string" where
  "cell_text c = (case c of None \<Rightarrow> [] | Some s \<Rightarrow> strip s)"

definition price_like :: "cell \<Rightarrow> bool" where
  "price_like c = (extract_price_from_cell c \<noteq> None
                   \<or> (cell_text c \<noteq> [] \<and> rx_search RE_PRICE (cell_text c) \<noteq> None))"

definition discount_like :: "cell \<Rightarrow> bool" where
  "discount_like c = (extract_discount_from_cell c \<noteq> None
                      \<or> (cell_text c \<noteq> [] \<and> rx_search RE_DISCOUNT (cell_text c) \<noteq> None))"

text \<open>The inner loop over the cells of one row, for one of the two counters.\<close>

definition count_row :: "(cell \<Rightarrow> bool) \<Rightarrow> nat \<Rightarrow> nat list \<Rightarrow> row \<Rightarrow> nat list" where
  "count_row test ncols counts r =
     foldl (\<lambda>cs ic. case ic of (i, c) \<Rightarrow> if test c then cs[i := cs ! i + 1] else cs)
           counts (enumerate 0 (take ncols r))"

definition count_rows :: "(cell \<Rightarrow> bool) \<Rightarrow> nat \<Rightarrow> row list \<Rightarrow> nat list" where
  "count_rows test ncols rows = foldl (count_row test ncols) (replicate ncols 0) rows"

text \<open>\<^verbatim>\<open>max(xs)\<close> of natural numbers, and \<^verbatim>\<open>max(range(n), key=...)\<close> for \<open>0 < n\<close>: the
  first index where the key is largest.\<close>

definition list_max :: "nat list \<Rightarrow> nat" where
  "list_max xs = foldl max 0 xs"

definition max_index :: "nat list \<Rightarrow> nat" where
  "max_index counts =
     foldl (\<lambda>best i. if counts ! best < counts ! i then i else best) 0 [1..<length counts]"

definition infer_column_indices_from_rows :: "row list \<Rightarrow> indices" where
  "infer_column_indices_from_rows rows =
     (if rows = [] then
        \<lparr>part_idx = Some 0, series_idx = Some 1, description_idx = Some 2,
         price_idx = Some 3, discount_idx = Some 4\<rparr>
      else
        (let ncols = list_max (map length rows) in
         if ncols < 3 then
           \<lparr>part_idx = Some 0, series_idx = None, description_idx = Some 1,
            price_idx = Some 2, discount_idx = None\<rparr>
         else
           (let price_counts = count_rows price_like ncols rows;
                discount_counts = count_rows discount_like ncols rows
            in \<lparr>part_idx = Some 0,
                series_idx = (if 2 \<le> ncols then Some 1 else None),
                description_idx = Some (if 3 \<le> ncols then 2 else 1),
                price_idx = Some (if 0 < list_max price_counts
                                  then max_index price_counts else ncols - 2),
                discount_idx = Some (if 0 < list_max discount_counts
                                     then max_index discount_counts else ncols - 1)\<rparr>)))"

subsection \<open>Rows\<close>

text \<open>\<^verbatim>\<open>row[i] if i is not None and i < len(row) else None\<close>\<close>

definition cell_at :: "row \<Rightarrow> nat option \<Rightarrow> cell" where
  "cell_at r io = (case io of None \<Rightarrow> None | Some i \<Rightarrow> if i < length r then r ! i else None)"

definition row_has_price :: "row \<Rightarrow> nat option \<Rightarrow> bool" where
  "row_has_price r pidx =
     (case pidx of None \<Rightarrow> False
      | Some i \<Rightarrow> if length r \<le> i then False else extract_price_from_cell (r ! i) \<noteq> None)"

definition row_looks_like_series_discount :: "row \<Rightarrow> indices \<Rightarrow> bool" where
  "row_looks_like_series_discount r ix =
     (let has_disc = (discount_idx ix \<noteq> None
                      \<and> extract_discount_from_cell (cell_at r (discount_idx ix)) \<noteq> None);
          has_price = (price_idx ix \<noteq> None
                       \<and> extract_price_from_cell (cell_at r (price_idx ix)) \<noteq> None)
      in has_disc \<and> \<not> has_price)"

text \<open>The local function \<^verbatim>\<open>get\<close> of \<^verbatim>\<open>_normalize_row\<close>.\<close>

definition get :: "row \<Rightarrow> nat option \<Rightarrow> string" where
  "get r io = (case io of None \<Rightarrow> []
     | Some i \<Rightarrow> if length r \<le> i then []
                 else (case r ! i of None \<Rightarrow> [] | Some v \<Rightarrow> strip v))"

text \<open>\<^verbatim>\<open>a or b\<close> on strings\<close>

definition str_or :: "string \<Rightarrow> string \<Rightarrow> string" where
  "str_or a b = (if a \<noteq> [] then a else b)"

definition opt_or_empty :: "string option \<Rightarrow> string" where
  "opt_or_empty so = (case so of None \<Rightarrow> [] | Some s \<Rightarrow> s)"

definition normalize_row :: "row \<Rightarrow> indices \<Rightarrow> bool \<Rightarrow> out_rec option" where
  "normalize_row r ix is_series_discount =
     (let part = clean_part_number (get r (part_idx ix));
          series = series_numeric_only (get r (series_idx ix));
          desc = clean_text (get r (description_idx ix));
          price_str = (if is_series_discount then None
                       else extract_price_from_cell (cell_at r (price_idx ix)));
          discount_str = extract_discount_from_cell (cell_at r (discount_idx ix))
      in if is_series_discount then
           Some \<lparr>Part_Number = [],
                 Series = str_or series (str_or (series_numeric_only part) (series_numeric_only desc)),
                 Description = desc,
                 Price = [],
                 Discount = opt_or_empty discount_str\<rparr>
         else if opt_or_empty price_str = [] then None
         else
           Some \<lparr>Part_Number = part,
                 Series = series,
                 Description = desc,
                 Price = opt_or_empty price_str,
                 Discount = opt_or_empty discount_str\<rparr>)"

definition is_header_row :: "row \<Rightarrow> bool" where
  "is_header_row r =
     (if r = [] then False
      else (let combined = join '' '' (map lower (filter (\<lambda>s. s \<noteq> []) (map opt_or_empty r)))
            in str_in ''part'' combined
               \<and> (str_in ''price'' combined \<or> str_in ''description'' combined)))"

subsection \<open>The loop over tables and rows\<close>

text \<open>
  The state of the loops of \<^verbatim>\<open>parse_pdf\<close>: the column roles, \<^verbatim>\<open>None\<close> until the
  first row that is not empty, and the records appended so far.
\<close>

type_synonym pstate = "indices option \<times> out_rec list"

definition pad_row :: "row \<Rightarrow> row" where
  "pad_row r = r @ replicate (5 - length r) (Some [])"

definition default_roles :: "indices \<Rightarrow> nat \<Rightarrow> indices" where
  "default_roles ix n =
     (let ix1 = (if price_idx ix = None then ix\<lparr>price_idx := Some (n - 2)\<rparr> else ix)
      in if discount_idx ix1 = None then ix1\<lparr>discount_idx := Some (n - 1)\<rparr> else ix1)"

definition process_row :: "pstate \<Rightarrow> row \<Rightarrow> pstate" where
  "process_row st r0 =
     (case st of (indices, records) \<Rightarrow>
        if r0 = [] then st
        else
          (let r = pad_row r0 in
           if is_header_row r \<and> indices = None then
             (Some (default_roles (infer_column_indices r) (length r)), records)
           else
             (let ix = (case indices of
                          None \<Rightarrow> default_roles (infer_column_indices r) (length r)
                        | Some ix0 \<Rightarrow> ix0)
              in if is_header_row r then (Some ix, records)
                 else
                   (let is_series_discount = row_looks_like_series_discount r ix in
                    if \<not> is_series_discount \<and> \<not> row_has_price r (price_idx ix)
                    then (Some ix, records)
                    else (case normalize_row r ix is_series_discount of
                            None \<Rightarrow> (Some ix, records)
                          | Some rec \<Rightarrow> (Some ix, records @ [rec]))))))"

definition process_table :: "pstate \<Rightarrow> table \<Rightarrow> pstate" where
  "process_table st t = (if length t < 2 then st else foldl process_row st t)"

definition process_tables :: "table list \<Rightarrow> out_rec list" where
  "process_tables tables = snd (foldl process_table (None, []) tables)"

subsection \<open>The document\<close>

text \<open>
  What the PDF library reports is an input of the model. A page gives its text
  (\<^verbatim>\<open>extract_text\<close>), all its tables (\<^verbatim>\<open>extract_tables\<close>) and its largest table
  (\<^verbatim>\<open>extract_table\<close>); each call may raise instead. A file is a path that exists or
  not, with its suffix, and the pages that opening it gives, or the exception it raises.
\<close>

datatype error = FileNotFoundError | ValueError string | ImportError | LibraryError

record page =
  extract_text :: "error + string option"
  extract_tables :: "error + table list"
  extract_table :: "error + table option"

record pdf_file =
  path_exists :: bool
  path_suffix :: string
  pdf_open :: "error + page list"

subsection \<open>Metadata\<close>

definition word_chars :: string where
  "word_chars = upper_chars @ lower_chars @ digit_chars @ ''-''"

definition opt_char :: "string \<Rightarrow> rx" where
  "opt_char cs = Rep (In cs) 0 (Some 1) True"

text \<open>The tail \<^verbatim>\<open>\s*#?\s*:?\s*([A-Z0-9\-]+)\<close> of the quote number patterns, under \<^verbatim>\<open>re.I\<close>.\<close>

definition quote_tail :: rx where
  "quote_tail = Seq spaces (Seq (opt_char ''#'') (Seq spaces (Seq (opt_char '':'') (Seq spaces
                  (Grp 1 (Rep (In word_chars) 1 None True))))))"

text \<open>\<^verbatim>\<open>(?:quote|quotation)\s*#?\s*:?\s*([A-Z0-9\-]+)\<close>\<close>

definition RE_QUOTE_NUMBER :: rx where
  "RE_QUOTE_NUMBER = Seq (Alt (word_i ''quote'') (word_i ''quotation'')) quote_tail"

text \<open>\<^verbatim>\<open>(\d{1,2}[/\-]\d{1,2}[/\-]\d{2,4})\<close>\<close>

definition date_group :: rx where
  "date_group = Grp 1 (Seq (Rep (In digit_chars) 1 (Some 2) True) (Seq (Atom (In ''/-''))
                  (Seq (Rep (In digit_chars) 1 (Some 2) True) (Seq (Atom (In ''/-''))
                    (Rep (In digit_chars) 2 (Some 4) True)))))"

text \<open>\<^verbatim>\<open>(?:date|issued)\s*:?\s*(\d{1,2}[/\-]\d{1,2}[/\-]\d{2,4})\<close>\<close>

definition RE_DATE :: rx where
  "RE_DATE = Seq (Alt (word_i ''date'') (word_i ''issued''))
               (Seq spaces (Seq (opt_char '':'') (Seq spaces date_group)))"

text \<open>\<^verbatim>\<open>(?:valid|expir|expires?)\s*:?\s*(\d{1,2}[/\-]\d{1,2}[/\-]\d{2,4})\<close>\<close>

definition RE_EXPIRATION :: rx where
  "RE_EXPIRATION =
     Seq (Alt (word_i ''valid'') (Alt (word_i ''expir'') (Seq (word_i ''expire'') (opt_char ''sS''))))
         (Seq spaces (Seq (opt_char '':'') (Seq spaces date_group)))"

text \<open>\<^verbatim>\<open>(?:customer|sold\s*to|bill\s*to)\s*:?\s*(.+?)(?:\n|$)\<close>, with \<^verbatim>\<open>re.DOTALL\<close>\<close>

definition RE_CUSTOMER :: rx where
  "RE_CUSTOMER =
     Seq (Alt (word_i ''customer'')
            (Alt (Seq (word_i ''sold'') (Seq spaces (word_i ''to'')))
                 (Seq (word_i ''bill'') (Seq spaces (word_i ''to'')))))
         (Seq spaces (Seq (opt_char '':'') (Seq spaces
            (Seq (Grp 1 (Rep Any 1 None False)) (Alt (Atom (In [CHR 0x0A])) Eol)))))"

record metadata =
  quote_number :: "string option"
  date :: "string option"
  expiration_date :: "string option"
  customer :: "string option"

definition text_list :: "string option \<Rightarrow> string list" where
  "text_list t = (case t of None \<Rightarrow> [] | Some s \<Rightarrow> if s = [] then [] else [s])"

text \<open>
  The texts of the first and of the last page. An exception ends the loop and keeps what
  was read; with no page at all the index \<^verbatim>\<open>-1\<close> raises at once.
\<close>

definition metadata_texts :: "page list \<Rightarrow> string list" where
  "metadata_texts pages =
     (case pages of [] \<Rightarrow> []
      | p # ps \<Rightarrow>
          (case extract_text p of Inl e \<Rightarrow> []
           | Inr t0 \<Rightarrow>
               (case extract_text (last (p # ps)) of Inl e \<Rightarrow> text_list t0
                | Inr t1 \<Rightarrow> text_list t0 @ text_list t1)))"

definition first_group :: "rx \<Rightarrow> string \<Rightarrow> string option" where
  "first_group r s = (case rx_search r s of None \<Rightarrow> None | Some m \<Rightarrow> Some (m_group m 1))"

definition extract_metadata_v1 :: "page list \<Rightarrow> metadata" where
  "extract_metadata_v1 pages =
     (let full = join [CHR 0x0A] (metadata_texts pages)
      in \<lparr>quote_number = map_option strip (first_group RE_QUOTE_NUMBER full),
          date = map_option strip (first_group RE_DATE full),
          expiration_date = map_option strip (first_group RE_EXPIRATION full),
          customer = map_option clean_text (first_group RE_CUSTOMER full)\<rparr>)"

subsection \<open>\<^verbatim>\<open>parse_pdf\<close> and \<^verbatim>\<open>main\<close>\<close>

definition tables_with_pdfplumber :: "page list \<Rightarrow> nat list \<Rightarrow> table list" where
  "tables_with_pdfplumber pages page_indices =
     concat (map (\<lambda>i. if length pages \<le> i then []
                       else (case extract_tables (pages ! i) of Inl e \<Rightarrow> [] | Inr ts \<Rightarrow> ts))
                 page_indices)"

definition page_indices :: "nat \<Rightarrow> nat list" where
  "page_indices num_pages =
     (let first = (if 1 < num_pages then [1..<min 9 num_pages] else [0])
      in if 1 < num_pages \<and> num_pages - 1 \<notin> set first then first @ [num_pages - 1] else first)"

definition scanned_tables :: "page list \<Rightarrow> table list" where
  "scanned_tables pages =
     (let tables = tables_with_pdfplumber pages (page_indices (length pages))
      in if tables = [] then tables_with_pdfplumber pages [0..<length pages] else tables)"

definition no_rows :: string where
  "no_rows = ''No pricing rows extracted''"

text \<open>
  \<open>has_pdfplumber\<close> is the flag \<^verbatim>\<open>HAS_PDFPLUMBER\<close> that the import sets. The result
  is the exception raised or the pair of the records (the rows of the DataFrame) and the
  metadata.
\<close>

definition parse_pdf_v1 :: "bool \<Rightarrow> pdf_file \<Rightarrow> error + (out_rec list \<times> metadata)" where
  "parse_pdf_v1 has_pdfplumber f =
     (if \<not> path_exists f then Inl FileNotFoundError
      else if lower (path_suffix f) \<noteq> ''.pdf'' then Inl (ValueError ''Not a PDF file'')
      else if \<not> has_pdfplumber then Inl ImportError
      else (case pdf_open f of Inl e \<Rightarrow> Inl e
            | Inr pages \<Rightarrow>
                (let meta = extract_metadata_v1 pages;
                     records = process_tables (scanned_tables pages)
                 in if records = [] then Inl (ValueError no_rows) else Inr (records, meta))))"

text \<open>
  What \<^verbatim>\<open>to_csv\<close> and the prints to the standard output do is an input of the model
  too. \<^verbatim>\<open>save_csv\<close> and the prints after it stand outside the \<^verbatim>\<open>try\<close> of \<^verbatim>\<open>main\<close>:
  an exception that one of them raises leaves \<^verbatim>\<open>main\<close>, and under
  \<^verbatim>\<open>sys.exit(main())\<close> the process then ends with status 1. \<^verbatim>\<open>to_csv\<close> writes the file, or
  raises with the file created by then or not.
\<close>

datatype out_dir = Dir string | Parent string

type_synonym csv_call = "out_dir \<times> string \<times> out_rec list"

datatype csv_result = Written | Raised bool

record system =
  to_csv :: "csv_call \<Rightarrow> csv_result"
  stdout_ok :: bool

text \<open>
  A run of \<^verbatim>\<open>main\<close> under \<^verbatim>\<open>sys.exit(main())\<close>: the exit status of the process, the
  calls of \<^verbatim>\<open>save_csv\<close>, each with the output directory, the file name and the records,
  and the files created or written. The prints to the standard error come before a
  \<^verbatim>\<open>return 1\<close>, where an exception of theirs gives status 1 as well.
\<close>

record run =
  exit_code :: int
  saved :: "csv_call list"
  created :: "(out_dir \<times> string) list"

definition out_name :: "string option \<Rightarrow> string" where
  "out_name q =
     ''quote_'' @ replace (replace (str_or (opt_or_empty q) ''unknown'') ''/'' ''-'') '' '' ''_''
     @ ''_parsed.csv''"

definition output_dir :: "string list \<Rightarrow> out_dir" where
  "output_dir argv = (if 2 < length argv then Dir (argv ! 2) else Parent (argv ! 1))"

text \<open>The lines of \<^verbatim>\<open>main\<close> after the \<^verbatim>\<open>try\<close>: \<^verbatim>\<open>save_csv\<close>, the prints, \<^verbatim>\<open>return 0\<close>.\<close>

definition save_and_report :: "system \<Rightarrow> csv_call \<Rightarrow> run" where
  "save_and_report sys call =
     (case to_csv sys call of
        Raised file_created \<Rightarrow>
          \<lparr>exit_code = 1, saved = [call],
           created = (if file_created then [(fst call, fst (snd call))] else [])\<rparr>
      | Written \<Rightarrow>
          \<lparr>exit_code = (if stdout_ok sys then 0 else 1), saved = [call],
           created = [(fst call, fst (snd call))]\<rparr>)"

definition main_v1 :: "bool \<Rightarrow> (string \<Rightarrow> pdf_file) \<Rightarrow> system \<Rightarrow> string list \<Rightarrow> run" where
  "main_v1 has_pdfplumber fs sys argv =
     (if length argv < 2 then \<lparr>exit_code = 1, saved = [], created = []\<rparr>
      else (case parse_pdf_v1 has_pdfplumber (fs (argv ! 1)) of
              Inl e \<Rightarrow> \<lparr>exit_code = 1, saved = [], created = []\<rparr>
            | Inr (df, meta) \<Rightarrow>
                save_and_report sys (output_dir argv, out_name (quote_number meta), df)))"

section \<open>The simplified parser\<close>

text \<open>\<^verbatim>\<open>(?:quote|quotation|Q)\s*#?\s*:?\s*([A-Z0-9\-]+)\<close>\<close>

definition RE_QUOTE_NUMBER_v2 :: rx where
  "RE_QUOTE_NUMBER_v2 =
     Seq (Alt (word_i ''quote'') (Alt (word_i ''quotation'') (word_i ''Q''))) quote_tail"

text \<open>\<^verbatim>\<open>(\d{3})\s*Series.*?([\d.]+)%\<close>, with \<^verbatim>\<open>re.I\<close> and \<^verbatim>\<open>re.DOTALL\<close>\<close>

definition RE_SERIES_DISCOUNT :: rx where
  "RE_SERIES_DISCOUNT =
     Seq (Grp 1 (Rep (In digit_chars) 3 (Some 3) True))
       (Seq spaces (Seq (word_i ''Series'')
         (Seq (Rep Any 0 None False)
           (Seq (Grp 2 (Rep (In (digit_chars @ ''.'')) 1 None True)) (Atom (In ''%''))))))"

definition extract_metadata_v2 :: "page list \<Rightarrow> string option" where
  "extract_metadata_v2 pages =
     (case pages of [] \<Rightarrow> None
      | p # ps \<Rightarrow>
          (case extract_text p of Inl e \<Rightarrow> None
           | Inr t \<Rightarrow> map_option strip (first_group RE_QUOTE_NUMBER_v2 (opt_or_empty t))))"

text \<open>The body of the loop over the rows of a table: the records that a row appends.\<close>

definition product_v2 :: "string \<Rightarrow> string \<Rightarrow> string \<Rightarrow> out_rec" where
  "product_v2 part desc price =
     \<lparr>Part_Number = part, Series = [], Description = desc,
      Price = (if startswith price ''$'' then price else ''$'' @ price), Discount = []\<rparr>"

definition row_v2 :: "row \<Rightarrow> out_rec list" where
  "row_v2 r =
     (if r = [] \<or> length r < 3 then []
      else
        (let part_raw = opt_or_empty (r ! 0);
             desc_raw = opt_or_empty (r ! 1);
             price_raw = opt_or_empty (r ! 2)
         in if strip price_raw = [] then []
            else
              (let part = replace (strip part_raw) [CHR 0x0A] ''/'';
                   desc = replace (replace (strip desc_raw) [CHR 0x0A] ''; '') ''<br>'' ''; '';
                   price = strip price_raw
               in if str_in ''discount'' (lower desc) \<and> str_in ''%'' desc then
                    (case rx_search RE_SERIES_DISCOUNT desc of
                       Some m \<Rightarrow>
                         (let series_num = m_group m 1;
                              discount_pct = m_group m 2;
                              clean_desc = strip (replace (split_first ''Discount'' desc)
                                                          (series_num @ '' Series'') [])
                          in [\<lparr>Part_Number = [], Series = series_num, Description = clean_desc,
                               Price = [], Discount = discount_pct @ ''%''\<rparr>])
                     | None \<Rightarrow> [product_v2 part desc price])
                  else [product_v2 part desc price])))"

definition start_idx :: "table \<Rightarrow> nat" where
  "start_idx t =
     (case t of [] \<Rightarrow> 0
      | r # rs \<Rightarrow>
          if r \<noteq> []
             \<and> filter (\<lambda>c. str_in ''part'' (lower c)) (filter (\<lambda>s. s \<noteq> []) (map opt_or_empty r)) \<noteq> []
          then 1 else 0)"

definition table_v2 :: "table option \<Rightarrow> out_rec list" where
  "table_v2 t = (case t of None \<Rightarrow> []
                 | Some tb \<Rightarrow> concat (map row_v2 (drop (start_idx tb) tb)))"

text \<open>The loop over the pages: an exception of \<^verbatim>\<open>extract_table\<close> ends the parse.\<close>

fun pages_v2 :: "out_rec list \<Rightarrow> page list \<Rightarrow> error + out_rec list" where
  "pages_v2 all_rows [] = Inr all_rows"
| "pages_v2 all_rows (p # ps) =
     (case extract_table p of Inl e \<Rightarrow> Inl e
      | Inr t \<Rightarrow> pages_v2 (all_rows @ table_v2 t) ps)"

definition parse_pdf_v2 :: "pdf_file \<Rightarrow> error + (out_rec list \<times> string option)" where
  "parse_pdf_v2 f =
     (if \<not> path_exists f then Inl FileNotFoundError
      else (case pdf_open f of Inl e \<Rightarrow> Inl e
            | Inr pages \<Rightarrow>
                (let meta = extract_metadata_v2 pages in
                 case pages_v2 [] pages of Inl e \<Rightarrow> Inl e
                 | Inr all_rows \<Rightarrow>
                     if all_rows = [] then Inl (ValueError no_rows) else Inr (all_rows, meta))))"

definition main_v2 :: "(string \<Rightarrow> pdf_file) \<Rightarrow> system \<Rightarrow> string list \<Rightarrow> run" where
  "main_v2 fs sys argv =
     (if length argv < 2 then \<lparr>exit_code = 1, saved = [], created = []\<rparr>
      else (case parse_pdf_v2 (fs (argv ! 1)) of
              Inl e \<Rightarrow> \<lparr>exit_code = 1, saved = [], created = []\<rparr>
            | Inr (df, meta) \<Rightarrow> save_and_report sys (output_dir argv, out_name meta, df)))"

section \<open>Inputs of the examples\<close>

text \<open>A file that exists, is named as a PDF and opens with no page.\<close>

definition empty_pdf :: pdf_file where
  "empty_pdf = \<lparr>path_exists = True, path_suffix = ''.pdf'', pdf_open = Inr []\<rparr>"

text \<open>A file that opens with one page, whose only table is \<open>t\<close> and which has no text.\<close>

definition one_table_pdf :: "table \<Rightarrow> pdf_file" where
  "one_table_pdf t =
     \<lparr>path_exists = True, path_suffix = ''.pdf'',
      pdf_open = Inr [\<lparr>extract_text = Inr None, extract_tables = Inr [t],
                       extract_table = Inr (Some t)\<rparr>]\<rparr>"

text \<open>A system where \<^verbatim>\<open>to_csv\<close> writes the file and the prints after it raise.\<close>

definition closed_stdout :: system where
  "closed_stdout = \<lparr>to_csv = (\<lambda>call. Written), stdout_ok = False\<rparr>"

text \<open>
  A table with a header row and a series discount, one with a header row and a product
  that has a discount of its own, and one with a product row only.
\<close>

definition discount_table :: table where
  "discount_table =
     [[Some ''Part Number'', Some ''Series'', Some ''Description'', Some ''Price'', Some ''Discount''],
      [Some [], Some ''281'', Some ''Volume discount'', Some [], Some ''15%'']]"

definition priced_table :: table where
  "priced_table =
     [[Some ''Part Number'', Some ''Series'', Some ''Description'', Some ''Price'', Some ''Discount''],
      [Some ''750-500'', Some ''750'', Some ''Module'', Some ''$10.00'', Some ''5%'']]"

definition product_table :: table where
  "product_table = [[Some ''750-500'', Some ''Module'', Some ''125.00'']]"

text \<open>A table with no header row, the discounts in its last column.\<close>

definition headerless_table :: table where
  "headerless_table =
     [[Some [], Some ''281 terminal blocks'', Some ''15%''],
      [Some [], Some ''221 lever connectors'', Some ''20%'']]"


section \<open>Notions used in the statements\<close>

subsection \<open>Header roles\<close>

text \<open>
  The role that the \<^verbatim>\<open>if\<close>/\<^verbatim>\<open>elif\<close> chain of \<^verbatim>\<open>_infer_column_indices\<close> gives to
  a header cell, and the entry of the dictionary for a role.
\<close>

datatype role = Part | SeriesRole | DescriptionRole | PriceRole | DiscountRole

definition header_role :: "string \<Rightarrow> string \<Rightarrow> role option" where
  "header_role joined cell =
     (if str_in ''part'' cell \<and> (str_in ''number'' cell \<or> str_in ''no'' cell \<or> str_in ''nr'' cell)
        then Some Part
      else if str_in ''series'' cell then Some SeriesRole
      else if str_in ''desc'' cell \<or> str_in ''product'' cell then Some DescriptionRole
      else if str_in ''price'' cell \<or> (str_in ''unit'' cell \<and> str_in ''price'' joined)
        then Some PriceRole
      else if str_in ''discount'' cell \<or> str_in ''disc'' cell then Some DiscountRole
      else None)"

fun role_idx :: "role \<Rightarrow> indices \<Rightarrow> nat option" where
  "role_idx Part ix = part_idx ix"
| "role_idx SeriesRole ix = series_idx ix"
| "role_idx DescriptionRole ix = description_idx ix"
| "role_idx PriceRole ix = price_idx ix"
| "role_idx DiscountRole ix = discount_idx ix"

fun set_role :: "role \<Rightarrow> nat \<Rightarrow> indices \<Rightarrow> indices" where
  "set_role Part i ix = ix\<lparr>part_idx := Some i\<rparr>"
| "set_role SeriesRole i ix = ix\<lparr>series_idx := Some i\<rparr>"
| "set_role DescriptionRole i ix = ix\<lparr>description_idx := Some i\<rparr>"
| "set_role PriceRole i ix = ix\<lparr>price_idx := Some i\<rparr>"
| "set_role DiscountRole i ix = ix\<lparr>discount_idx := Some i\<rparr>"

text \<open>The last position of a list whose element satisfies a test, and a list with none.\<close>

definition is_last_match :: "('a \<Rightarrow> bool) \<Rightarrow> 'a list \<Rightarrow> nat \<Rightarrow> bool" where
  "is_last_match P xs i =
     (i < length xs \<and> P (xs ! i) \<and> (\<forall>j < length xs. i < j \<longrightarrow> \<not> P (xs ! j)))"

definition no_match :: "('a \<Rightarrow> bool) \<Rightarrow> 'a list \<Rightarrow> bool" where
  "no_match P xs = (\<forall>j < length xs. \<not> P (xs ! j))"

subsection \<open>Counts of a column\<close>

text \<open>
  The number of rows whose cell at a column index passes a test, and the column that
  \<^verbatim>\<open>_infer_column_indices_from_rows\<close> is to choose from such counts: with a count
  above zero the first column among those with the highest count, else the fallback.
\<close>

definition col_count :: "(cell \<Rightarrow> bool) \<Rightarrow> row list \<Rightarrow> nat \<Rightarrow> nat" where
  "col_count test rows i = length (filter (\<lambda>r. i < length r \<and> test (r ! i)) rows)"

definition best_column :: "(nat \<Rightarrow> nat) \<Rightarrow> nat \<Rightarrow> nat \<Rightarrow> nat \<Rightarrow> bool" where
  "best_column cnt n fallback p =
     (if \<exists>i < n. 0 < cnt i
      then p < n \<and> (\<forall>j < n. cnt j \<le> cnt p) \<and> (\<forall>j < p. cnt j < cnt p)
      else p = fallback)"

subsection \<open>Groups of a pattern\<close>

text \<open>The numbers of the capturing groups of a pattern.\<close>

fun grps :: "rx \<Rightarrow> nat set" where
  "grps Eps = {}"
| "grps (Atom cl) = {}"
| "grps (Rep cl lo hi g) = {}"
| "grps (Seq a b) = grps a \<union> grps b"
| "grps (Alt a b) = grps a \<union> grps b"
| "grps (Grp n r) = insert n (grps r)"
| "grps Eol = {}"

subsection \<open>Kinds of records\<close>

text \<open>
  The two kinds of record in the words of the specification, and what the two branches
  of each parser guarantee. A record without a price has no part number and has a
  discount (and, in the simplified parser, a series of three digits). A record with a
  price has a price that starts with the dollar sign; in the simplified parser it has
  neither series nor discount.
\<close>

definition product_record :: "out_rec \<Rightarrow> bool" where
  "product_record r = (Part_Number r \<noteq> [] \<and> Price r \<noteq> [] \<and> Series r = [] \<and> Discount r = [])"

definition series_discount_record :: "out_rec \<Rightarrow> bool" where
  "series_discount_record r =
     (Series r \<noteq> [] \<and> Discount r \<noteq> [] \<and> Part_Number r = [] \<and> Price r = [])"

definition branch_record_v1 :: "out_rec \<Rightarrow> bool" where
  "branch_record_v1 r =
     (if Price r = [] then Part_Number r = [] \<and> Discount r \<noteq> []
      else startswith (Price r) ''$'')"

definition branch_record_v2 :: "out_rec \<Rightarrow> bool" where
  "branch_record_v2 r =
     (if Price r = []
      then Part_Number r = [] \<and> length (Series r) = 3 \<and> list_all is_digit (Series r)
           \<and> Discount r \<noteq> []
      else startswith (Price r) ''$'' \<and> Series r = [] \<and> Discount r = [])"

subsection \<open>The roles of a row\<close>

text \<open>
  The column roles that the loop of \<^verbatim>\<open>parse_pdf\<close> uses for a padded row: those fixed
  by an earlier row, or else those inferred from the row itself.
\<close>

definition row_roles :: "indices option \<Rightarrow> row \<Rightarrow> indices" where
  "row_roles indices r =
     (case indices of None \<Rightarrow> default_roles (infer_column_indices r) (length r)
      | Some ix0 \<Rightarrow> ix0)"

section \<open>Lemmas\<close>

subsection \<open>The loop over the header cells\<close>

lemma assign_role_set:
  "assign_role j ix (i, c) = (case header_role j c of None \<Rightarrow> ix | Some r \<Rightarrow> set_role r i ix)"
  by (auto simp: assign_role_def header_role_def)

lemma role_idx_set_role: "role_idx R (set_role r i ix) = (if r = R then Some i else role_idx R ix)"
  by (cases R; cases r) simp_all

lemma role_idx_assign:
  "role_idx R (assign_role j ix (i, c)) = (if header_role j c = Some R then Some i else role_idx R ix)"
  by (simp add: assign_role_set role_idx_set_role split: option.split)

lemma is_last_match_snoc:
  "is_last_match P (xs @ [x]) i = (if P x then i = length xs else is_last_match P xs i)"
  by (auto simp: is_last_match_def nth_append less_Suc_eq)

lemma no_match_snoc: "no_match P (xs @ [x]) = (no_match P xs \<and> \<not> P x)"
  by (auto simp: no_match_def nth_append less_Suc_eq)

lemma last_match_not_none: "is_last_match P xs i \<Longrightarrow> \<not> no_match P xs"
  by (auto simp: is_last_match_def no_match_def)

lemma ex_last_match: "\<not> no_match P xs \<Longrightarrow> \<exists>i. is_last_match P xs i"
proof (induction xs rule: rev_induct)
  case Nil
  then show ?case by (simp add: no_match_def)
next
  case (snoc x xs)
  then show ?case by (auto simp: is_last_match_snoc no_match_snoc)
qed

lemma role_idx_foldl:
  "role_idx R (foldl (assign_role j) ix0 (enumerate 0 xs)) = Some i \<longleftrightarrow>
     is_last_match (\<lambda>c. header_role j c = Some R) xs i
     \<or> (no_match (\<lambda>c. header_role j c = Some R) xs \<and> role_idx R ix0 = Some i)"
proof (induction xs arbitrary: i rule: rev_induct)
  case Nil
  show ?case by (simp add: is_last_match_def no_match_def)
next
  case (snoc x xs)
  show ?case
    by (auto simp: enumerate_append_eq role_idx_assign is_last_match_snoc no_match_snoc snoc.IH)
qed

lemma role_idx_no_indices: "role_idx R no_indices = None"
  by (cases R) (simp_all add: no_indices_def)

lemma role_idx_foldl_None:
  "role_idx R (foldl (assign_role j) no_indices (enumerate 0 xs)) = None \<longleftrightarrow>
     no_match (\<lambda>c. header_role j c = Some R) xs"
proof
  assume a: "role_idx R (foldl (assign_role j) no_indices (enumerate 0 xs)) = None"
  show "no_match (\<lambda>c. header_role j c = Some R) xs"
  proof (rule ccontr)
    assume "\<not> no_match (\<lambda>c. header_role j c = Some R) xs"
    then obtain i where "is_last_match (\<lambda>c. header_role j c = Some R) xs i"
      using ex_last_match by blast
    then have "role_idx R (foldl (assign_role j) no_indices (enumerate 0 xs)) = Some i"
      by (simp add: role_idx_foldl)
    with a show False by simp
  qed
next
  assume n: "no_match (\<lambda>c. header_role j c = Some R) xs"
  show "role_idx R (foldl (assign_role j) no_indices (enumerate 0 xs)) = None"
  proof (cases "role_idx R (foldl (assign_role j) no_indices (enumerate 0 xs))")
    case None
    then show ?thesis .
  next
    case (Some i)
    then have "is_last_match (\<lambda>c. header_role j c = Some R) xs i"
      by (simp add: role_idx_foldl role_idx_no_indices)
    with n show ?thesis using last_match_not_none by blast
  qed
qed

lemma role_idx_infer:
  "role_idx R (infer_column_indices header_row) =
     (let h = map header_cell header_row;
          ix = foldl (assign_role (join '' '' h)) no_indices (enumerate 0 h)
      in if role_idx R ix = None \<and> R = PriceRole \<and> 4 \<le> length header_row
           then Some (length header_row - 2)
         else if role_idx R ix = None \<and> R = DiscountRole \<and> 5 \<le> length header_row
           then Some (length header_row - 1)
         else role_idx R ix)"
  by (cases R) (simp_all add: infer_column_indices_def Let_def)

subsection \<open>The counters of the content-driven inference\<close>

lemma foldl_count_enumerate:
  "length (foldl (\<lambda>cs ic. case ic of (i, c) \<Rightarrow> if test c then cs[i := cs ! i + 1] else cs) (cs :: nat list) (enumerate k xs))
     = length cs
   \<and> (\<forall>i < length cs.
        foldl (\<lambda>cs ic. case ic of (i, c) \<Rightarrow> if test c then cs[i := cs ! i + 1] else cs) cs (enumerate k xs) ! i
        = cs ! i + (if k \<le> i \<and> i < k + length xs \<and> test (xs ! (i - k)) then 1 else 0))"
proof (induction xs arbitrary: k cs)
  case Nil
  show ?case by auto
next
  case (Cons x xs)
  show ?case
    by (auto simp: Cons.IH nth_list_update Suc_diff_le nth_Cons')
qed

lemma length_count_row: "length (count_row test n cs r) = length cs"
  using foldl_count_enumerate [of test cs 0 "take n r"] by (simp add: count_row_def)

lemma nth_count_row:
  "i < length cs \<Longrightarrow>
   count_row test n cs r ! i = cs ! i + (if i < n \<and> i < length r \<and> test (r ! i) then 1 else 0)"
  using foldl_count_enumerate [of test cs 0 "take n r"] by (auto simp: count_row_def)

lemma foldl_count_row:
  "length (foldl (count_row test n) cs rows) = length cs
   \<and> (\<forall>i < length cs. i < n \<longrightarrow> foldl (count_row test n) cs rows ! i = cs ! i + col_count test rows i)"
proof (induction rows arbitrary: cs)
  case Nil
  show ?case by (simp add: col_count_def)
next
  case (Cons r rows)
  show ?case
    by (auto simp: Cons.IH length_count_row nth_count_row col_count_def)
qed

lemma length_count_rows: "length (count_rows test n rows) = n"
  using foldl_count_row [of test n "replicate n 0" rows] by (simp add: count_rows_def)

lemma nth_count_rows: "i < n \<Longrightarrow> count_rows test n rows ! i = col_count test rows i"
  using foldl_count_row [of test n "replicate n 0" rows] by (simp add: count_rows_def)

lemma foldl_max_pos: "0 < foldl max (a::nat) xs \<longleftrightarrow> 0 < a \<or> (\<exists>x \<in> set xs. 0 < x)"
  by (induction xs arbitrary: a) (auto simp: max_def)

lemma list_max_pos: "0 < list_max xs \<longleftrightarrow> (\<exists>i < length xs. 0 < xs ! i)"
proof -
  have "(\<exists>x \<in> set xs. 0 < x) \<longleftrightarrow> (\<exists>i < length xs. 0 < xs ! i)"
    by (metis in_set_conv_nth)
  then show ?thesis by (simp add: list_max_def foldl_max_pos)
qed

lemma max_index_foldl:
  "1 \<le> k \<Longrightarrow> k \<le> length cs \<Longrightarrow>
   (let p = foldl (\<lambda>best i. if cs ! best < cs ! i then i else best) 0 [1..<k]
    in p < k \<and> (\<forall>j < k. cs ! j \<le> (cs ! p :: nat)) \<and> (\<forall>j < p. cs ! j < cs ! p))"
proof (induction k)
  case 0
  then show ?case by simp
next
  case (Suc k)
  show ?case
  proof (cases "k = 0")
    case True
    then show ?thesis by simp
  next
    case False
    with Suc have ih: "(let p = foldl (\<lambda>best i. if cs ! best < cs ! i then i else best) 0 [1..<k]
      in p < k \<and> (\<forall>j < k. cs ! j \<le> cs ! p) \<and> (\<forall>j < p. cs ! j < cs ! p))"
      by simp
    from False have u: "[1..<Suc k] = [1..<k] @ [k]" by simp
    show ?thesis
      unfolding u using ih
      by (auto simp: Let_def less_Suc_eq intro: order_trans less_le_trans le_less_trans)
  qed
qed

lemma max_index_best:
  "cs \<noteq> [] \<Longrightarrow> max_index cs < length cs \<and> (\<forall>j < length cs. cs ! j \<le> cs ! max_index cs)
     \<and> (\<forall>j < max_index cs. cs ! j < cs ! max_index cs)"
  using max_index_foldl [of "length cs" cs] by (simp add: max_index_def Let_def Suc_le_eq)

lemma best_column_counts:
  assumes "0 < n"
  shows "best_column (col_count test rows) n fb
           (if 0 < list_max (count_rows test n rows) then max_index (count_rows test n rows) else fb)"
proof -
  let ?cs = "count_rows test n rows"
  have len: "length ?cs = n" by (rule length_count_rows)
  have nth: "\<And>i. i < n \<Longrightarrow> ?cs ! i = col_count test rows i" by (rule nth_count_rows)
  have pos: "0 < list_max ?cs \<longleftrightarrow> (\<exists>i < n. 0 < col_count test rows i)"
    by (auto simp: list_max_pos len nth)
  from assms len have ne: "?cs \<noteq> []" by auto
  from max_index_best [OF ne] len
  have m: "max_index ?cs < n" "\<forall>j < n. ?cs ! j \<le> ?cs ! max_index ?cs"
    "\<forall>j < max_index ?cs. ?cs ! j < ?cs ! max_index ?cs"
    by simp_all
  show ?thesis
  proof (cases "0 < list_max ?cs")
    case True
    with pos m nth show ?thesis
      by (auto simp: best_column_def)
  next
    case False
    with pos show ?thesis by (auto simp: best_column_def)
  qed
qed

text \<open>
  What \<^verbatim>\<open>_infer_column_indices_from_rows\<close> returns for rows with at least three
  columns: each of the two roles goes to the first column with the highest count, and to
  the fallback position when every count is zero.
\<close>

lemma infer_column_indices_from_rows_best:
  assumes "rows \<noteq> []" and "3 \<le> list_max (map length rows)"
  shows "\<exists>p d. infer_column_indices_from_rows rows =
            \<lparr>part_idx = Some 0, series_idx = Some 1, description_idx = Some 2,
             price_idx = Some p, discount_idx = Some d\<rparr>
          \<and> best_column (col_count price_like rows) (list_max (map length rows))
               (list_max (map length rows) - 2) p
          \<and> best_column (col_count discount_like rows) (list_max (map length rows))
               (list_max (map length rows) - 1) d"
proof -
  let ?n = "list_max (map length rows)"
  from assms have n: "0 < ?n" by simp
  show ?thesis
    using assms best_column_counts [OF n, of price_like rows "?n - 2"]
      best_column_counts [OF n, of discount_like rows "?n - 1"]
    by (simp add: infer_column_indices_from_rows_def Let_def)
qed

subsection \<open>The matcher\<close>

text \<open>
  A match hands the rest of the string to the continuation, with the groups of the
  pattern set and the others as they were.
\<close>

lemma rep_m_sound:
  "rep_m cl lo hi g n s k = Some res \<Longrightarrow>
   \<exists>j \<le> length s. k (drop j s) = Some res \<and> lo \<le> n + j \<and> (\<forall>i < j. in_cls cl (s ! i))
      \<and> (j = 0 \<or> below hi (n + j - 1))"
proof (induction s arbitrary: n)
  case Nil
  then show ?case by (auto split: if_splits)
next
  case (Cons x xs)
  show ?case
  proof (cases "k (x # xs) = Some res \<and> lo \<le> n")
    case True
    then show ?thesis by (intro exI [of _ 0]) simp
  next
    case False
    with Cons.prems have c: "in_cls cl x" "below hi n" and r: "rep_m cl lo hi g (Suc n) xs k = Some res"
      by (auto split: if_splits option.splits)
    from Cons.IH [OF r] obtain j where j: "j \<le> length xs" "k (drop j xs) = Some res"
      "lo \<le> Suc n + j" "\<forall>i < j. in_cls cl (xs ! i)" "j = 0 \<or> below hi (Suc n + j - 1)"
      by blast
    show ?thesis
    proof (intro exI [of _ "Suc j"] conjI)
      show "\<forall>i < Suc j. in_cls cl ((x # xs) ! i)"
        using c j(4) by (auto simp: nth_Cons')
      show "Suc j = 0 \<or> below hi (n + Suc j - 1)"
        using c j(5) by (cases "j = 0") auto
    qed (use j in simp_all)
  qed
qed

lemma mrx_sound:
  "mrx r s c k = Some res \<Longrightarrow>
   \<exists>s' c'. k s' c' = Some res \<and> length s' \<le> length s \<and> (\<forall>n. n \<notin> grps r \<longrightarrow> c' n = c n)"
proof (induction r arbitrary: s c k)
  case Eps
  then show ?case by (intro exI [of _ s] exI [of _ c]) simp
next
  case (Atom cl)
  then obtain x xs where "s = x # xs" "in_cls cl x" "k xs c = Some res"
    by (cases s) (auto split: if_splits)
  then show ?case by (intro exI [of _ xs] exI [of _ c]) simp
next
  case (Rep cl lo hi g)
  then have "rep_m cl lo hi g 0 s (\<lambda>s'. k s' c) = Some res" by simp
  from rep_m_sound [OF this] obtain j where "j \<le> length s" "k (drop j s) c = Some res"
    by blast
  then show ?case by (intro exI [of _ "drop j s"] exI [of _ c]) simp
next
  case (Seq a b)
  then have "mrx a s c (\<lambda>s' c'. mrx b s' c' k) = Some res" by simp
  from Seq.IH(1) [OF this] obtain s1 c1 where 1: "mrx b s1 c1 k = Some res" "length s1 \<le> length s"
    "\<forall>n. n \<notin> grps a \<longrightarrow> c1 n = c n" by blast
  from Seq.IH(2) [OF 1(1)] obtain s2 c2 where 2: "k s2 c2 = Some res" "length s2 \<le> length s1"
    "\<forall>n. n \<notin> grps b \<longrightarrow> c2 n = c1 n" by blast
  from 1 2 show ?case by (intro exI [of _ s2] exI [of _ c2]) auto
next
  case (Alt a b)
  then have "mrx a s c k = Some res \<or> mrx b s c k = Some res"
    by (auto split: option.splits)
  then show ?case
  proof
    assume "mrx a s c k = Some res"
    from Alt.IH(1) [OF this] obtain s1 c1 where "k s1 c1 = Some res" "length s1 \<le> length s"
      "\<forall>n. n \<notin> grps a \<longrightarrow> c1 n = c n" by blast
    then show ?thesis by (intro exI [of _ s1] exI [of _ c1]) simp
  next
    assume "mrx b s c k = Some res"
    from Alt.IH(2) [OF this] obtain s1 c1 where "k s1 c1 = Some res" "length s1 \<le> length s"
      "\<forall>n. n \<notin> grps b \<longrightarrow> c1 n = c n" by blast
    then show ?thesis by (intro exI [of _ s1] exI [of _ c1]) simp
  qed
next
  case (Grp n r)
  then have "mrx r s c (\<lambda>s' c'. k s' (c'(n \<mapsto> take (length s - length s') s))) = Some res"
    by simp
  from Grp.IH [OF this] obtain s1 c1 where 1:
    "k s1 (c1(n \<mapsto> take (length s - length s1) s)) = Some res" "length s1 \<le> length s"
    "\<forall>m. m \<notin> grps r \<longrightarrow> c1 m = c m" by blast
  define c2 where "c2 = c1(n \<mapsto> take (length s - length s1) s)"
  have "\<forall>m. m \<notin> grps (Grp n r) \<longrightarrow> c2 m = c m"
    using 1(3) by (simp add: c2_def)
  moreover have "k s1 c2 = Some res" using 1(1) by (simp only: c2_def)
  ultimately show ?case using 1(2) by blast
next
  case Eol
  then have "k s c = Some res" by (auto split: if_splits)
  then show ?case by (intro exI [of _ s] exI [of _ c]) simp
qed

lemma rx_search_match:
  "rx_search r s = Some m \<Longrightarrow> \<exists>t. suffix t s \<and> rx_match r t = Some m"
proof (induction s)
  case Nil
  then show ?case by auto
next
  case (Cons x xs)
  show ?case
  proof (cases "rx_match r (x # xs)")
    case None
    with Cons.prems have "rx_search r xs = Some m" by simp
    from Cons.IH [OF this] show ?thesis by (auto simp: suffix_Cons)
  next
    case (Some a)
    with Cons.prems show ?thesis by (intro exI [of _ "x # xs"]) simp
  qed
qed

text \<open>A greedy repetition with no upper bound takes the whole run of the class when the rest matches.\<close>

lemma rep_m_greedy_all:
  assumes "\<forall>x \<in> set xs. in_cls cl x" and "rest = [] \<or> \<not> in_cls cl (hd rest)"
    and "lo \<le> n + length xs" and "k rest = Some res"
  shows "rep_m cl lo None True n (xs @ rest) k = Some res"
  using assms
proof (induction xs arbitrary: n)
  case Nil
  then show ?case by (cases rest) auto
next
  case (Cons x xs)
  then have "rep_m cl lo None True (Suc n) (xs @ rest) k = Some res" by simp
  with Cons.prems show ?case by simp
qed

lemma series_discount_group1:
  assumes "rx_search RE_SERIES_DISCOUNT s = Some m"
  shows "length (m_group m 1) = 3 \<and> (\<forall>c \<in> set (m_group m 1). is_digit c)"
proof -
  from rx_search_match [OF assms] obtain t where t: "rx_match RE_SERIES_DISCOUNT t = Some m" by blast
  define B where "B = Seq spaces (Seq (word_i ''Series'')
         (Seq (Rep Any 0 None False)
           (Seq (Grp 2 (Rep (In (digit_chars @ ''.'')) 1 None True)) (Atom (In ''%'')))))"
  have g: "1 \<notin> grps B"
    by (simp add: B_def spaces_def)
  from t have "rep_m (In digit_chars) 3 (Some 3) True 0 t
      (\<lambda>s'. mrx B s' (Map.empty(1 \<mapsto> take (length t - length s') t)) (\<lambda>s' c. Some c)) = Some m"
    by (simp add: rx_match_def RE_SERIES_DISCOUNT_def B_def)
  from rep_m_sound [OF this] obtain j where j: "j \<le> length t"
    "mrx B (drop j t) (Map.empty(1 \<mapsto> take (length t - length (drop j t)) t)) (\<lambda>s' c. Some c) = Some m"
    "3 \<le> j" "\<forall>i < j. in_cls (In digit_chars) (t ! i)" "j = 0 \<or> below (Some 3) (j - 1)"
    by auto
  then have j3: "j = 3" by auto
  from mrx_sound [OF j(2)] g have "m 1 = Some (take (length t - length (drop j t)) t)"
    by auto
  with j j3 have m1: "m_group m 1 = take 3 t" by (simp add: m_group_def)
  from j j3 have "\<forall>c \<in> set (take 3 t). is_digit c"
    by (auto simp: in_set_conv_nth is_digit_def)
  with m1 j j3 show ?thesis by simp
qed

subsection \<open>Rounding\<close>

text \<open>
  An amount of fewer than \<open>2 ^ 52\<close> hundredths, read as a float and rounded to
  hundredths again, is the same amount.
\<close>

lemma floor_log2_lower:
  assumes "0 < q"
  shows "2 powi (floor_log2 q) \<le> q"
proof -
  obtain a b where ab: "quotient_of q = (a, b)" by (cases "quotient_of q")
  then have b: "0 < b" and q: "q = of_int a / of_int b"
    by (simp_all add: quotient_of_denom_pos quotient_of_div)
  from assms b q have a: "0 < a"
    by (simp add: zero_less_divide_iff)
  let ?k = "bitlen a - bitlen b"
  show ?thesis
  proof (cases "2 powi ?k \<le> q")
    case True
    then show ?thesis by (simp add: floor_log2_def ab)
  next
    case False
    from bitlen_bounds [OF a] have la: "2 ^ nat (bitlen a - 1) \<le> a" by simp
    from bitlen_bounds [OF b] have ub: "b < 2 ^ nat (bitlen b)" by simp
    from a have pa: "1 \<le> bitlen a" using bitlen_bounds [OF a] bitlen_nonneg [of a]
      by (cases "bitlen a = 0") auto
    have pb: "0 \<le> bitlen b" by (rule bitlen_nonneg)
    have la': "(2::rat) powi (bitlen a - 1) \<le> of_int a"
    proof -
      have "(2::rat) powi (bitlen a - 1) = 2 ^ nat (bitlen a - 1)"
        using pa by (simp add: power_int_def)
      also have "\<dots> = of_int (2 ^ nat (bitlen a - 1))" by simp
      also have "\<dots> \<le> of_int a" using la by (simp only: of_int_le_iff)
      finally show ?thesis .
    qed
    have ub': "of_int b \<le> (2::rat) powi (bitlen b)"
    proof -
      have "(of_int b :: rat) \<le> of_int (2 ^ nat (bitlen b))" using ub by (simp only: of_int_le_iff)
      also have "\<dots> = 2 ^ nat (bitlen b)" by simp
      also have "\<dots> = 2 powi (bitlen b)" using pb by (simp add: power_int_def)
      finally show ?thesis .
    qed
    have "(2::rat) powi ((bitlen a - 1) - bitlen b) = 2 powi (bitlen a - 1) / 2 powi (bitlen b)"
      by (rule power_int_diff) simp
    moreover have "?k - 1 = (bitlen a - 1) - bitlen b" by simp
    ultimately have "(2::rat) powi (?k - 1) = 2 powi (bitlen a - 1) / 2 powi (bitlen b)"
      by (simp only:)
    also have "\<dots> \<le> of_int a / 2 powi (bitlen b)"
      using la' by (simp add: divide_right_mono)
    also have "\<dots> \<le> of_int a / of_int b"
      using ub' a b by (simp add: divide_left_mono)
    finally have "(2::rat) powi (?k - 1) \<le> q" using q by simp
    with False show ?thesis by (simp add: floor_log2_def ab)
  qed
qed

lemma round_half_even_err: "\<bar>of_int (round_half_even x) - x\<bar> \<le> 1 / 2"
proof -
  define d where "d = x - of_int \<lfloor>x\<rfloor>"
  have d: "0 \<le> d" "d < 1" unfolding d_def by linarith+
  have x: "x = of_int \<lfloor>x\<rfloor> + d" by (simp add: d_def)
  consider "d < 1 / 2" | "1 / 2 < d" | "d = 1 / 2" by linarith
  then show ?thesis
  proof cases
    case 1
    then have "round_half_even x = \<lfloor>x\<rfloor>"
      by (simp add: round_half_even_def Let_def d_def)
    with 1 d x show ?thesis by (simp add: abs_if)
  next
    case 2
    then have "round_half_even x = \<lfloor>x\<rfloor> + 1"
      by (simp add: round_half_even_def Let_def d_def)
    with 2 d x show ?thesis by (simp add: abs_if)
  next
    case 3
    then have "round_half_even x = \<lfloor>x\<rfloor> \<or> round_half_even x = \<lfloor>x\<rfloor> + 1"
      by (simp add: round_half_even_def Let_def d_def)
    with 3 d x show ?thesis by (auto simp: abs_if)
  qed
qed

lemma round_half_even_near:
  assumes "\<bar>x - of_int n\<bar> < 1 / 2"
  shows "round_half_even x = n"
proof -
  from round_half_even_err [of x] assms
  have "\<bar>(of_int (round_half_even x) :: rat) - of_int n\<bar> < 1" by linarith
  then have "\<bar>(of_int (round_half_even x - n) :: rat)\<bar> < 1" by simp
  then have "\<bar>round_half_even x - n\<bar> < 1"
    by (metis of_int_abs of_int_less_1_iff)
  then show ?thesis by linarith
qed

lemma round_half_even_nonneg: "0 \<le> x \<Longrightarrow> 0 \<le> round_half_even x"
  by (auto simp: round_half_even_def Let_def)

lemma round_b64_cents:
  assumes c0: "0 \<le> c" and c52: "c < 2 ^ 52"
  shows "\<exists>v. round_b64 (of_int c / 100) = Some v \<and> 0 \<le> v \<and> round_half_even (v * 100) = c"
proof (cases "c = 0")
  case True
  then show ?thesis by (simp add: round_b64_def round_half_even_def)
next
  case False
  define q :: rat where "q = of_int c / 100"
  from False c0 have q0: "0 < q" by (simp add: q_def)
  define e where "e = max (floor_log2 q - 52) (- 1074)"
  define m where "m = round_half_even (q / 2 powi e)"
  define v :: rat where "v = of_int m * 2 powi e"
  have pe: "(0::rat) < 2 powi e" by simp
  have c': "(of_int c :: rat) < 2 ^ 52"
  proof -
    from c52 have "(of_int c :: rat) < of_int (2 ^ 52)" by (simp only: of_int_less_iff)
    then show ?thesis by simp
  qed
  have m0: "0 \<le> m" unfolding m_def using q0 pe by (intro round_half_even_nonneg) simp
  have v0: "0 \<le> v" using m0 pe by (simp add: v_def)
  have "\<bar>of_int m - q / 2 powi e\<bar> \<le> 1 / 2" unfolding m_def by (rule round_half_even_err)
  then have "\<bar>of_int m - q / 2 powi e\<bar> * \<bar>(2::rat) powi e\<bar> \<le> 1 / 2 * 2 powi e"
    using pe by (simp add: mult_right_mono)
  then have "\<bar>(of_int m - q / 2 powi e) * 2 powi e\<bar> \<le> 2 powi e / 2"
    by (simp only: abs_mult)
  moreover have "(of_int m - q / 2 powi e) * 2 powi e = v - q"
    using pe by (simp add: v_def left_diff_distrib)
  ultimately have err: "\<bar>v - q\<bar> \<le> 2 powi e / 2" by simp
  have small: "2 powi e / 2 * 100 < (1::rat) / 2"
  proof (cases "floor_log2 q - 52 \<le> - 1074")
    case True
    then have "e \<le> - 7" by (simp add: e_def)
    then have "(2::rat) powi e \<le> 2 powi (- 7)"
      by (rule power_int_increasing) simp
    moreover have "(2::rat) powi (- 7) = 1 / 128" by (simp add: power_int_def power_divide)
    ultimately show ?thesis by linarith
  next
    case False
    then have e: "e = floor_log2 q - 52" by (simp add: e_def)
    have "(2::rat) powi e = 2 powi (floor_log2 q) / 2 ^ 52"
      by (simp add: e power_int_diff)
    also have "\<dots> \<le> q / 2 ^ 52"
      using floor_log2_lower [OF q0] by (simp add: divide_right_mono)
    finally have "(2::rat) powi e * 100 \<le> of_int c / 2 ^ 52" by (simp add: q_def)
    also have "\<dots> < 1"
      using c' by simp
    finally show ?thesis by simp
  qed
  have "\<bar>v * 100 - of_int c\<bar> = \<bar>v - q\<bar> * 100" by (simp add: q_def abs_if)
  also have "\<dots> \<le> 2 powi e / 2 * 100" using err by simp
  also have "\<dots> < 1 / 2" by (rule small)
  finally have r: "round_half_even (v * 100) = c" by (rule round_half_even_near)
  have "v \<le> q + 2 powi e / 2" using err by (simp add: abs_if split: if_splits)
  also have "\<dots> < of_int c + 1" using small c0 by (simp add: q_def)
  also have "\<dots> < 2 ^ 52 + 1" using c' by simp
  also have "\<dots> < (2::rat) ^ 53" by simp
  also have "\<dots> < (2::rat) ^ 1024" by (rule power_strict_increasing) simp_all
  finally have "\<not> 2 ^ 1024 \<le> v" by (simp only: not_le)
  then have "round_b64 q = Some v"
    using q0 by (simp add: round_b64_def Let_def e_def [symmetric] m_def [symmetric] v_def [symmetric])
  with v0 r show ?thesis by (auto simp: q_def)
qed

subsection \<open>The records of the two branches\<close>

lemma extract_discount_nonempty: "extract_discount_from_cell c = Some d \<Longrightarrow> d \<noteq> []"
  by (auto simp: extract_discount_from_cell_def Let_def split: option.splits)

lemma extract_price_dollar: "extract_price_from_cell c = Some p \<Longrightarrow> startswith p ''$''"
  by (auto simp: extract_price_from_cell_def Let_def startswith_def split: option.splits)

lemma normalize_row_branch:
  assumes "normalize_row r ix (row_looks_like_series_discount r ix) = Some rec"
  shows "branch_record_v1 rec"
proof (cases "row_looks_like_series_discount r ix")
  case True
  then obtain d where "extract_discount_from_cell (cell_at r (discount_idx ix)) = Some d"
    by (auto simp: row_looks_like_series_discount_def Let_def)
  with extract_discount_nonempty [OF this] assms True show ?thesis
    by (auto simp: normalize_row_def Let_def branch_record_v1_def opt_or_empty_def)
next
  case False
  with assms obtain p where p: "extract_price_from_cell (cell_at r (price_idx ix)) = Some p"
    and rec: "Price rec = p" "p \<noteq> []"
    by (auto simp: normalize_row_def Let_def opt_or_empty_def split: if_splits option.splits)
  from extract_price_dollar [OF p] rec show ?thesis
    by (simp add: branch_record_v1_def)
qed

lemma process_row_eq:
  assumes "r0 \<noteq> []"
  shows "process_row (indices, records) r0 =
     (if is_header_row (pad_row r0) \<and> indices = None
        then (Some (default_roles (infer_column_indices (pad_row r0)) (length (pad_row r0))), records)
      else if is_header_row (pad_row r0) then (Some (row_roles indices (pad_row r0)), records)
      else if \<not> row_looks_like_series_discount (pad_row r0) (row_roles indices (pad_row r0))
              \<and> \<not> row_has_price (pad_row r0) (price_idx (row_roles indices (pad_row r0)))
        then (Some (row_roles indices (pad_row r0)), records)
      else (case normalize_row (pad_row r0) (row_roles indices (pad_row r0))
                   (row_looks_like_series_discount (pad_row r0) (row_roles indices (pad_row r0))) of
              None \<Rightarrow> (Some (row_roles indices (pad_row r0)), records)
            | Some rec \<Rightarrow> (Some (row_roles indices (pad_row r0)), records @ [rec])))"
  unfolding process_row_def Let_def row_roles_def prod.case
  using assms by (simp only: if_False)

lemma process_row_snd:
  "snd (process_row (indices, records) r0) = records
   \<or> (\<exists>r ix rec. normalize_row r ix (row_looks_like_series_discount r ix) = Some rec
         \<and> snd (process_row (indices, records) r0) = records @ [rec])"
proof (cases "r0 = []")
  case True
  then show ?thesis by (simp add: process_row_def)
next
  case ne: False
  define r where "r = pad_row r0"
  define ix where "ix = row_roles indices r"
  have eq: "process_row (indices, records) r0 =
     (if is_header_row r \<and> indices = None
        then (Some (default_roles (infer_column_indices r) (length r)), records)
      else if is_header_row r then (Some ix, records)
      else if \<not> row_looks_like_series_discount r ix \<and> \<not> row_has_price r (price_idx ix)
        then (Some ix, records)
      else (case normalize_row r ix (row_looks_like_series_discount r ix) of
              None \<Rightarrow> (Some ix, records)
            | Some rec \<Rightarrow> (Some ix, records @ [rec])))"
    unfolding r_def ix_def using ne by (rule process_row_eq)
  show ?thesis
  proof (cases "normalize_row r ix (row_looks_like_series_discount r ix)")
    case None
    then show ?thesis by (simp add: eq)
  next
    case (Some rec)
    then have "snd (process_row (indices, records) r0) = records
        \<or> snd (process_row (indices, records) r0) = records @ [rec]"
      by (simp add: eq)
    with Some show ?thesis by blast
  qed
qed

lemma process_row_branch:
  assumes "\<forall>r \<in> set (snd st). branch_record_v1 r"
  shows "\<forall>r \<in> set (snd (process_row st r0)). branch_record_v1 r"
proof -
  obtain indices records where st: "st = (indices, records)" by (cases st)
  from process_row_snd [of indices records r0] assms normalize_row_branch
  show ?thesis unfolding st by auto
qed

lemma foldl_process_row_branch:
  "\<forall>r \<in> set (snd st). branch_record_v1 r \<Longrightarrow>
   \<forall>r \<in> set (snd (foldl process_row st t)). branch_record_v1 r"
proof (induction t arbitrary: st)
  case Nil
  then show ?case by simp
next
  case (Cons a t)
  have "\<forall>r \<in> set (snd (process_row st a)). branch_record_v1 r"
    using Cons.prems by (rule process_row_branch)
  from Cons.IH [OF this] show ?case by simp
qed

lemma process_table_branch:
  "\<forall>r \<in> set (snd st). branch_record_v1 r \<Longrightarrow>
   \<forall>r \<in> set (snd (process_table st t)). branch_record_v1 r"
  by (simp add: process_table_def foldl_process_row_branch)

lemma foldl_process_table_branch:
  "\<forall>r \<in> set (snd st). branch_record_v1 r \<Longrightarrow>
   \<forall>r \<in> set (snd (foldl process_table st ts)). branch_record_v1 r"
proof (induction ts arbitrary: st)
  case Nil
  then show ?case by simp
next
  case (Cons a ts)
  have "\<forall>r \<in> set (snd (process_table st a)). branch_record_v1 r"
    using Cons.prems by (rule process_table_branch)
  from Cons.IH [OF this] show ?case by simp
qed

lemma process_tables_branch: "r \<in> set (process_tables ts) \<Longrightarrow> branch_record_v1 r"
  using foldl_process_table_branch [of "(None, [])" ts] by (simp add: process_tables_def)

lemma row_v2_cases:
  "row_v2 r = []
   \<or> (\<exists>part desc price. price \<noteq> [] \<and> row_v2 r = [product_v2 part desc price])
   \<or> (\<exists>m desc cd. rx_search RE_SERIES_DISCOUNT desc = Some m
         \<and> row_v2 r = [\<lparr>Part_Number = [], Series = m_group m 1, Description = cd, Price = [],
                          Discount = m_group m 2 @ ''%''\<rparr>])"
proof (cases "r = [] \<or> length r < 3 \<or> strip (opt_or_empty (r ! 2)) = []")
  case True
  then show ?thesis by (auto simp: row_v2_def Let_def)
next
  case ok: False
  define desc where
    "desc = replace (replace (strip (opt_or_empty (r ! 1))) [CHR 0x0A] ''; '') ''<br>'' ''; ''"
  show ?thesis
  proof (cases "str_in ''discount'' (lower desc) \<and> str_in ''%'' desc")
    case False
    with ok have "row_v2 r = [product_v2 (replace (strip (opt_or_empty (r ! 0))) [CHR 0x0A] ''/'') desc
        (strip (opt_or_empty (r ! 2)))]"
      by (auto simp: row_v2_def Let_def desc_def)
    with ok show ?thesis by blast
  next
    case True
    show ?thesis
    proof (cases "rx_search RE_SERIES_DISCOUNT desc")
      case None
      with ok True have "row_v2 r = [product_v2 (replace (strip (opt_or_empty (r ! 0))) [CHR 0x0A] ''/'') desc
          (strip (opt_or_empty (r ! 2)))]"
        by (auto simp: row_v2_def Let_def desc_def)
      with ok show ?thesis by blast
    next
      case (Some m)
      with ok True have "row_v2 r = [\<lparr>Part_Number = [], Series = m_group m 1,
          Description = strip (replace (split_first ''Discount'' desc) (m_group m 1 @ '' Series'') []),
          Price = [], Discount = m_group m 2 @ ''%''\<rparr>]"
        by (auto simp: row_v2_def Let_def desc_def)
      with Some show ?thesis by blast
    qed
  qed
qed

lemma row_v2_branch:
  assumes "rec \<in> set (row_v2 r)"
  shows "branch_record_v2 rec"
proof -
  from row_v2_cases [of r] assms consider
    part desc price where "price \<noteq> []" "rec = product_v2 part desc price"
    | m cd desc where "rx_search RE_SERIES_DISCOUNT desc = Some m"
        "rec = \<lparr>Part_Number = [], Series = m_group m 1, Description = cd, Price = [],
                Discount = m_group m 2 @ ''%''\<rparr>"
    by auto
  then show ?thesis
  proof cases
    case 1
    then show ?thesis by (simp add: product_v2_def branch_record_v2_def startswith_def)
  next
    case 2
    with series_discount_group1 [OF 2(1)] show ?thesis
      by (simp add: branch_record_v2_def list_all_iff)
  qed
qed

lemma table_v2_branch: "rec \<in> set (table_v2 t) \<Longrightarrow> branch_record_v2 rec"
  by (auto simp: table_v2_def row_v2_branch split: option.splits dest: in_set_dropD)

lemma pages_v2_branch:
  "pages_v2 acc pages = Inr rows \<Longrightarrow> \<forall>r \<in> set acc. branch_record_v2 r \<Longrightarrow>
   \<forall>r \<in> set rows. branch_record_v2 r"
proof (induction pages arbitrary: acc)
  case Nil
  then show ?case by simp
next
  case (Cons p ps)
  from Cons.prems(1) obtain t where t: "pages_v2 (acc @ table_v2 t) ps = Inr rows"
    by (auto split: sum.splits)
  have "\<forall>r \<in> set (acc @ table_v2 t). branch_record_v2 r"
    using Cons.prems(2) table_v2_branch by auto
  from Cons.IH [OF t this] show ?case .
qed

subsection \<open>A row whose price cell holds no price\<close>



section \<open>Properties\<close>

subsection \<open>Rows with a series discount in the description\<close>

text \<open>
  C1. In the simplified parser a row whose description reads
  \<^verbatim>\<open>281 Series Volume Discount 15%\<close> and whose price cell is blank appends no record:
  the test for a blank price comes first and skips the row. The same description beside
  a price cell that is not blank gives the series-discount record.
\<close>

theorem series_discount_row_without_price_dropped:
  "row_v2 [Some [], Some ''281 Series Volume Discount 15%'', Some []] = []
   \<and> row_v2 [Some [], Some ''281 Series Volume Discount 15%'', Some ''x''] =
       [\<lparr>Part_Number = [], Series = ''281'', Description = ''Volume'', Price = [],
         Discount = ''15%''\<rparr>]"
  by code_simp

subsection \<open>No records\<close>

text \<open>
  C7. When the loops of either parser end with no record, \<^verbatim>\<open>parse_pdf\<close> raises the
  ValueError that reports no pricing rows, \<^verbatim>\<open>main\<close> returns 1, saves nothing and
  creates no file; and no run of \<^verbatim>\<open>main\<close> saves an empty list of records.
\<close>

theorem no_rows_is_an_error:
  "(path_exists f \<and> lower (path_suffix f) = ''.pdf'' \<and> has_pdfplumber \<and> pdf_open f = Inr pages
      \<and> process_tables (scanned_tables pages) = []
      \<longrightarrow> parse_pdf_v1 has_pdfplumber f = Inl (ValueError no_rows)
          \<and> (fs (argv ! 1) = f
               \<longrightarrow> main_v1 has_pdfplumber fs sys argv
                     = \<lparr>exit_code = 1, saved = [], created = []\<rparr>))
   \<and> (path_exists f \<and> pdf_open f = Inr pages \<and> pages_v2 [] pages = Inr []
      \<longrightarrow> parse_pdf_v2 f = Inl (ValueError no_rows)
          \<and> (fs (argv ! 1) = f
               \<longrightarrow> main_v2 fs sys argv = \<lparr>exit_code = 1, saved = [], created = []\<rparr>))
   \<and> (\<forall>w \<in> set (saved (main_v1 has_pdfplumber fs sys argv)). snd (snd w) \<noteq> [])
   \<and> (\<forall>w \<in> set (saved (main_v2 fs sys argv)). snd (snd w) \<noteq> [])"
  by (auto simp: parse_pdf_v1_def parse_pdf_v2_def main_v1_def main_v2_def save_and_report_def
           Let_def split: sum.splits if_splits prod.splits csv_result.splits)

theorem no_rows_is_an_error_witness:
  "path_exists empty_pdf \<and> lower (path_suffix empty_pdf) = ''.pdf'' \<and> pdf_open empty_pdf = Inr []
   \<and> process_tables (scanned_tables []) = [] \<and> pages_v2 [] [] = Inr []
   \<and> parse_pdf_v1 True empty_pdf = Inl (ValueError no_rows)
   \<and> parse_pdf_v2 empty_pdf = Inl (ValueError no_rows)
   \<and> main_v1 True (\<lambda>p. empty_pdf) closed_stdout [''prog'', ''q.pdf'']
       = \<lparr>exit_code = 1, saved = [], created = []\<rparr>
   \<and> main_v2 (\<lambda>p. empty_pdf) closed_stdout [''prog'', ''q.pdf'']
       = \<lparr>exit_code = 1, saved = [], created = []\<rparr>"
proof -
  have e: "path_exists empty_pdf" "lower (path_suffix empty_pdf) = ''.pdf''"
    "pdf_open empty_pdf = Inr []"
    by (simp_all add: empty_pdf_def lower_def lower_char_def upper_chars_def lower_chars_def
          upper_latin_def lower_latin_def)
  have t: "process_tables (scanned_tables []) = []" "pages_v2 [] [] = Inr []"
    by (simp_all add: process_tables_def scanned_tables_def tables_with_pdfplumber_def
          page_indices_def)
  from no_rows_is_an_error [of empty_pdf True "[]" "\<lambda>p. empty_pdf" "[''prog'', ''q.pdf'']"
      closed_stdout] e t
  show ?thesis by simp
qed

subsection \<open>Short tables\<close>

text \<open>
  C9, as the code has it. The simplified parser has no test on the number of rows: a
  table of one row that is not a header row appends the record of that row.
\<close>

theorem one_row_table_v2_counterexample:
  "length [[Some ''750-500'', Some ''Module'', Some ''125.00'']] < 2
   \<and> table_v2 (Some [[Some ''750-500'', Some ''Module'', Some ''125.00'']]) =
      [\<lparr>Part_Number = ''750-500'', Series = [], Description = ''Module'', Price = ''$125.00'',
        Discount = []\<rparr>]"
  by code_simp

text \<open>
  C9, amended. In the original parser a table of fewer than 2 rows is skipped: it leaves
  the column roles and the records as they are, so the records of a document are those of
  the document without that table. In the simplified parser a missing table and a table
  with no row append nothing.
\<close>

theorem short_table_skipped:
  "(length t < 2 \<longrightarrow> process_table st t = st
      \<and> process_tables (ts1 @ t # ts2) = process_tables (ts1 @ ts2))
   \<and> table_v2 None = [] \<and> table_v2 (Some []) = []"
  by (simp add: process_tables_def process_table_def table_v2_def start_idx_def)

theorem short_table_skipped_witness:
  "length [[Some ''750-500'', Some ''Module'', Some ''125.00'']] < 2
   \<and> process_tables ([] @ [[Some ''750-500'', Some ''Module'', Some ''125.00'']] # [])
       = process_tables []"
  using short_table_skipped [of "[[Some ''750-500'', Some ''Module'', Some ''125.00'']]" _ "[]" "[]"]
  by simp

subsection \<open>Exit status 1\<close>

text \<open>
  C10, as the code has it. \<^verbatim>\<open>save_csv\<close> and the prints after it are outside the
  \<^verbatim>\<open>try\<close>. In the runs below \<^verbatim>\<open>parse_pdf\<close> returns one record, \<^verbatim>\<open>to_csv\<close> writes the
  file and a print then raises: the process exits with status 1 and the file exists.
\<close>

theorem exit_1_after_save_counterexample:
  "main_v1 True (\<lambda>p. one_table_pdf discount_table) closed_stdout [''prog'', ''q.pdf'']
     = \<lparr>exit_code = 1,
        saved = [(Parent ''q.pdf'', ''quote_unknown_parsed.csv'',
                  [\<lparr>Part_Number = [], Series = ''281'', Description = ''Volume discount'',
                    Price = [], Discount = ''15%''\<rparr>])],
        created = [(Parent ''q.pdf'', ''quote_unknown_parsed.csv'')]\<rparr>
   \<and> main_v2 (\<lambda>p. one_table_pdf product_table) closed_stdout [''prog'', ''q.pdf'']
     = \<lparr>exit_code = 1,
        saved = [(Parent ''q.pdf'', ''quote_unknown_parsed.csv'',
                  [\<lparr>Part_Number = ''750-500'', Series = [], Description = ''Module'',
                    Price = ''$125.00'', Discount = []\<rparr>])],
        created = [(Parent ''q.pdf'', ''quote_unknown_parsed.csv'')]\<rparr>"
  by code_simp

text \<open>
  C10, amended. A run of \<^verbatim>\<open>main\<close>, of either parser, with fewer than two arguments or
  in which \<^verbatim>\<open>parse_pdf\<close> raises (file missing, wrong extension, no rows, any other
  exception) exits with status 1, calls \<^verbatim>\<open>save_csv\<close> not at all and creates no file. A run
  that calls \<^verbatim>\<open>save_csv\<close> does so once, with the records and the metadata that
  \<^verbatim>\<open>parse_pdf\<close> has returned, and only such a run creates a file. A run that exits with
  status 1 after a call of \<^verbatim>\<open>save_csv\<close> is one where \<^verbatim>\<open>to_csv\<close> or a print after it
  raised.
\<close>

theorem failed_parse_saves_nothing:
  "(length argv < 2 \<or> parse_pdf_v1 has_pdfplumber (fs (argv ! 1)) = Inl e
      \<longrightarrow> main_v1 has_pdfplumber fs sys argv = \<lparr>exit_code = 1, saved = [], created = []\<rparr>)
   \<and> (length argv < 2 \<or> parse_pdf_v2 (fs (argv ! 1)) = Inl e
      \<longrightarrow> main_v2 fs sys argv = \<lparr>exit_code = 1, saved = [], created = []\<rparr>)
   \<and> (saved (main_v1 has_pdfplumber fs sys argv) \<noteq> []
          \<or> created (main_v1 has_pdfplumber fs sys argv) \<noteq> []
        \<longrightarrow> 2 \<le> length argv
            \<and> (\<exists>df meta. parse_pdf_v1 has_pdfplumber (fs (argv ! 1)) = Inr (df, meta)
                  \<and> saved (main_v1 has_pdfplumber fs sys argv)
                      = [(output_dir argv, out_name (quote_number meta), df)]))
   \<and> (saved (main_v2 fs sys argv) \<noteq> [] \<or> created (main_v2 fs sys argv) \<noteq> []
        \<longrightarrow> 2 \<le> length argv
            \<and> (\<exists>df meta. parse_pdf_v2 (fs (argv ! 1)) = Inr (df, meta)
                  \<and> saved (main_v2 fs sys argv) = [(output_dir argv, out_name meta, df)]))
   \<and> (exit_code (main_v1 has_pdfplumber fs sys argv) = 1
          \<and> saved (main_v1 has_pdfplumber fs sys argv) \<noteq> []
        \<longrightarrow> to_csv sys (hd (saved (main_v1 has_pdfplumber fs sys argv))) \<noteq> Written
            \<or> \<not> stdout_ok sys)
   \<and> (exit_code (main_v2 fs sys argv) = 1 \<and> saved (main_v2 fs sys argv) \<noteq> []
        \<longrightarrow> to_csv sys (hd (saved (main_v2 fs sys argv))) \<noteq> Written \<or> \<not> stdout_ok sys)"
  by (auto simp: main_v1_def main_v2_def save_and_report_def
           split: sum.splits csv_result.splits if_splits)

theorem failed_parse_saves_nothing_witness:
  "parse_pdf_v1 True empty_pdf = Inl (ValueError no_rows)
   \<and> main_v1 True (\<lambda>p. empty_pdf) closed_stdout [''prog'', ''q.pdf'']
       = \<lparr>exit_code = 1, saved = [], created = []\<rparr>
   \<and> length [''prog''] < 2
   \<and> main_v2 (\<lambda>p. empty_pdf) closed_stdout [''prog'']
       = \<lparr>exit_code = 1, saved = [], created = []\<rparr>
   \<and> exit_code (main_v2 (\<lambda>p. one_table_pdf product_table) closed_stdout [''prog'', ''q.pdf'']) = 1
   \<and> saved (main_v2 (\<lambda>p. one_table_pdf product_table) closed_stdout [''prog'', ''q.pdf''])
       = [(Parent ''q.pdf'', ''quote_unknown_parsed.csv'',
           [\<lparr>Part_Number = ''750-500'', Series = [], Description = ''Module'',
             Price = ''$125.00'', Discount = []\<rparr>])]
   \<and> parse_pdf_v2 (one_table_pdf product_table)
       = Inr ([\<lparr>Part_Number = ''750-500'', Series = [], Description = ''Module'',
                Price = ''$125.00'', Discount = []\<rparr>], None)
   \<and> \<not> stdout_ok closed_stdout"
proof -
  have p1: "parse_pdf_v1 True empty_pdf = Inl (ValueError no_rows)"
    by (simp add: parse_pdf_v1_def empty_pdf_def lower_def lower_char_def
          upper_chars_def lower_chars_def upper_latin_def lower_latin_def process_tables_def
          scanned_tables_def tables_with_pdfplumber_def page_indices_def)
  have p2: "parse_pdf_v2 (one_table_pdf product_table)
       = Inr ([\<lparr>Part_Number = ''750-500'', Series = [], Description = ''Module'',
                Price = ''$125.00'', Discount = []\<rparr>], None)"
    by code_simp
  have m2: "main_v2 (\<lambda>p. one_table_pdf product_table) closed_stdout [''prog'', ''q.pdf'']
     = \<lparr>exit_code = 1,
        saved = [(Parent ''q.pdf'', ''quote_unknown_parsed.csv'',
                  [\<lparr>Part_Number = ''750-500'', Series = [], Description = ''Module'',
                    Price = ''$125.00'', Discount = []\<rparr>])],
        created = [(Parent ''q.pdf'', ''quote_unknown_parsed.csv'')]\<rparr>"
    by code_simp
  have s: "\<not> stdout_ok closed_stdout" by (simp add: closed_stdout_def)
  from p1 p2 m2 s
    failed_parse_saves_nothing [of "[''prog'', ''q.pdf'']" True "\<lambda>p. empty_pdf"
      "ValueError no_rows" closed_stdout]
    failed_parse_saves_nothing [of "[''prog'']" True "\<lambda>p. empty_pdf" "ValueError no_rows"
      closed_stdout]
    failed_parse_saves_nothing [of "[''prog'', ''q.pdf'']" True
      "\<lambda>p. one_table_pdf product_table" "ValueError no_rows" closed_stdout]
  show ?thesis by simp
qed

subsection \<open>Header cells\<close>

text \<open>
  C5, as the code has it. Each cell that falls under a role assigns its index to the role,
  with no test for an earlier assignment: with two header cells of the same role the
  second one is kept. For the header \<^verbatim>\<open>["Series", "Series"]\<close> the series column is 1,
  not 0.
\<close>

theorem first_header_cell_counterexample:
  "header_role (join '' '' (map header_cell [Some ''Series'', Some ''Series'']))
       (header_cell (Some ''Series'')) = Some SeriesRole
   \<and> series_idx (infer_column_indices [Some ''Series'', Some ''Series'']) = Some 1
   \<and> series_idx (infer_column_indices [Some ''Series'', Some ''Series'']) \<noteq> Some 0"
  by code_simp

text \<open>
  C5, amended. The chain gives a header cell, lower-cased and stripped, at most one role:
  the first of part, series, description, price, discount whose test the cell passes
  (\<open>header_role\<close>), so that a cell with the keywords of two roles counts for the earlier
  one only. For each role the column index is that of the last cell of the header row
  that the chain gives this role: a later cell of the same role overrides an earlier
  one. When the chain gives the role to no cell, the price role falls back to the
  second-to-last of at least four cells, the discount role to the last of at least five,
  and the other roles stay unassigned.
\<close>

theorem last_matching_header_cell_wins:
  "role_idx R (infer_column_indices header_row) = Some i \<longleftrightarrow>
     is_last_match (\<lambda>c. header_role (join '' '' (map header_cell header_row)) c = Some R)
                   (map header_cell header_row) i
     \<or> (no_match (\<lambda>c. header_role (join '' '' (map header_cell header_row)) c = Some R)
                  (map header_cell header_row)
        \<and> ((R = PriceRole \<and> 4 \<le> length header_row \<and> i = length header_row - 2)
           \<or> (R = DiscountRole \<and> 5 \<le> length header_row \<and> i = length header_row - 1)))"
  using last_match_not_none [of "\<lambda>c. header_role (join '' '' (map header_cell header_row)) c = Some R"
      "map header_cell header_row" i]
  by (auto simp: role_idx_infer Let_def role_idx_foldl_None role_idx_foldl role_idx_no_indices)

theorem last_matching_header_cell_wins_witness:
  "is_last_match (\<lambda>c. header_role (join '' '' (map header_cell [Some ''Series'', Some ''Series''])) c = Some SeriesRole)
      (map header_cell [Some ''Series'', Some ''Series'']) 1
   \<and> series_idx (infer_column_indices [Some ''Series'', Some ''Series'']) = Some 1"
proof -
  have "is_last_match (\<lambda>c. header_role (join '' '' (map header_cell [Some ''Series'', Some ''Series''])) c = Some SeriesRole)
      (map header_cell [Some ''Series'', Some ''Series'']) 1"
    by (simp add: is_last_match_def header_cell_def header_role_def lower_def lower_char_def strip_def
          is_space_def space_chars_def upper_chars_def lower_chars_def upper_latin_def
          lower_latin_def)
  with last_matching_header_cell_wins [of SeriesRole "[Some ''Series'', Some ''Series'']" 1]
  show ?thesis by simp
qed

subsection \<open>Tables with no header row\<close>

text \<open>
  C4. \<^verbatim>\<open>parse_pdf\<close> never calls \<^verbatim>\<open>_infer_column_indices_from_rows\<close>, the function that
  counts per column the cells that parse as a price or as a discount. For a table with no
  header row it calls \<^verbatim>\<open>_infer_column_indices\<close> on the first row and, the keywords being
  absent, takes the second-to-last and the last position of the row padded to five cells.
  In the table below both rows hold a discount in column 2 and no cell holds a price: the
  counts give the discount role to column 2, where each row is a series discount line,
  but the loop takes column 3 for the price and column 4 for the discount, appends no
  record, and \<^verbatim>\<open>parse_pdf\<close> raises the ValueError for a document with this table only.
\<close>

theorem headerless_table_roles_by_position:
  "list_all (\<lambda>r. \<not> is_header_row (pad_row r)) headerless_table
   \<and> map (col_count price_like headerless_table) [0, 1, 2] = [0, 0, 0]
   \<and> map (col_count discount_like headerless_table) [0, 1, 2] = [0, 0, 2]
   \<and> discount_idx (infer_column_indices_from_rows headerless_table) = Some 2
   \<and> row_looks_like_series_discount (pad_row (hd headerless_table))
        (infer_column_indices_from_rows headerless_table)
   \<and> foldl process_table (None, []) [headerless_table]
       = (Some \<lparr>part_idx = None, series_idx = None, description_idx = None,
                price_idx = Some 3, discount_idx = Some 4\<rparr>, [])
   \<and> parse_pdf_v1 True (one_table_pdf headerless_table) = Inl (ValueError no_rows)"
  by code_simp

subsection \<open>The two kinds of record\<close>

text \<open>
  C2, as the code has it. In the original parser a product record carries the series and
  the discount of its row: the row of \<open>priced_table\<close> gives a record with both a price
  and a discount. In the simplified parser a row with a blank part cell and a price
  gives a record with a price and no part number. Neither is a product record nor a
  series-discount record in the words of the specification.
\<close>

theorem hybrid_record_counterexample:
  "parse_pdf_v1 True (one_table_pdf priced_table)
     = Inr ([\<lparr>Part_Number = ''750-500'', Series = ''750'', Description = ''Module'',
              Price = ''$10.00'', Discount = ''5%''\<rparr>],
            \<lparr>quote_number = None, date = None, expiration_date = None, customer = None\<rparr>)
   \<and> \<not> product_record \<lparr>Part_Number = ''750-500'', Series = ''750'', Description = ''Module'',
                         Price = ''$10.00'', Discount = ''5%''\<rparr>
   \<and> \<not> series_discount_record \<lparr>Part_Number = ''750-500'', Series = ''750'',
                                 Description = ''Module'', Price = ''$10.00'', Discount = ''5%''\<rparr>
   \<and> parse_pdf_v2 (one_table_pdf [[Some [], Some ''Module'', Some ''125.00'']])
     = Inr ([\<lparr>Part_Number = [], Series = [], Description = ''Module'', Price = ''$125.00'',
              Discount = []\<rparr>], None)
   \<and> \<not> product_record \<lparr>Part_Number = [], Series = [], Description = ''Module'',
                         Price = ''$125.00'', Discount = []\<rparr>
   \<and> \<not> series_discount_record \<lparr>Part_Number = [], Series = [], Description = ''Module'',
                                 Price = ''$125.00'', Discount = []\<rparr>"
  by code_simp

text \<open>
  C2, amended. Every record that either \<^verbatim>\<open>parse_pdf\<close> returns comes from one of two
  branches. A record with an empty price is a series-discount record: its part number is
  empty and its discount is not (in the simplified parser its series is three digits; in
  the original one the series may be empty). A record with a price has a price that
  starts with the dollar sign, and its part number may be empty; in the simplified parser
  its series and discount are empty, so that no record there has both a price and a
  discount, while in the original parser it carries whatever series and discount its row
  holds.
\<close>

theorem records_come_from_two_branches:
  "(parse_pdf_v1 has_pdfplumber f = Inr (records, meta) \<longrightarrow> (\<forall>r \<in> set records. branch_record_v1 r))
   \<and> (parse_pdf_v2 f = Inr (all_rows, meta2) \<longrightarrow>
        (\<forall>r \<in> set all_rows. branch_record_v2 r \<and> \<not> (Price r \<noteq> [] \<and> Discount r \<noteq> [])))"
proof (intro conjI impI)
  assume "parse_pdf_v1 has_pdfplumber f = Inr (records, meta)"
  then obtain pages where "records = process_tables (scanned_tables pages)"
    by (auto simp: parse_pdf_v1_def Let_def split: if_splits sum.splits)
  then show "\<forall>r \<in> set records. branch_record_v1 r"
    by (simp add: process_tables_branch)
next
  assume "parse_pdf_v2 f = Inr (all_rows, meta2)"
  then obtain pages where "pages_v2 [] pages = Inr all_rows"
    by (auto simp: parse_pdf_v2_def Let_def split: if_splits sum.splits)
  from pages_v2_branch [OF this] have "\<forall>r \<in> set all_rows. branch_record_v2 r" by simp
  then show "\<forall>r \<in> set all_rows. branch_record_v2 r \<and> \<not> (Price r \<noteq> [] \<and> Discount r \<noteq> [])"
    by (auto simp: branch_record_v2_def split: if_splits)
qed

theorem records_come_from_two_branches_witness:
  "parse_pdf_v1 True (one_table_pdf discount_table)
     = Inr ([\<lparr>Part_Number = [], Series = ''281'', Description = ''Volume discount'',
              Price = [], Discount = ''15%''\<rparr>],
            \<lparr>quote_number = None, date = None, expiration_date = None, customer = None\<rparr>)
   \<and> branch_record_v1 \<lparr>Part_Number = [], Series = ''281'', Description = ''Volume discount'',
                        Price = [], Discount = ''15%''\<rparr>
   \<and> parse_pdf_v2 (one_table_pdf product_table)
     = Inr ([\<lparr>Part_Number = ''750-500'', Series = [], Description = ''Module'',
              Price = ''$125.00'', Discount = []\<rparr>], None)
   \<and> branch_record_v2 \<lparr>Part_Number = ''750-500'', Series = [], Description = ''Module'',
                        Price = ''$125.00'', Discount = []\<rparr>"
proof -
  have 1: "parse_pdf_v1 True (one_table_pdf discount_table)
     = Inr ([\<lparr>Part_Number = [], Series = ''281'', Description = ''Volume discount'',
              Price = [], Discount = ''15%''\<rparr>],
            \<lparr>quote_number = None, date = None, expiration_date = None, customer = None\<rparr>)"
    by code_simp
  have 2: "parse_pdf_v2 (one_table_pdf product_table)
     = Inr ([\<lparr>Part_Number = ''750-500'', Series = [], Description = ''Module'',
              Price = ''$125.00'', Discount = []\<rparr>], None)"
    by code_simp
  from 1 2
    records_come_from_two_branches [of True "one_table_pdf discount_table"
      "[\<lparr>Part_Number = [], Series = ''281'', Description = ''Volume discount'',
              Price = [], Discount = ''15%''\<rparr>]"
      "\<lparr>quote_number = None, date = None, expiration_date = None, customer = None\<rparr>" "[]" None]
    records_come_from_two_branches [of True "one_table_pdf product_table" "[]"
      "\<lparr>quote_number = None, date = None, expiration_date = None, customer = None\<rparr>"
      "[\<lparr>Part_Number = ''750-500'', Series = [], Description = ''Module'',
              Price = ''$125.00'', Discount = []\<rparr>]" None]
  show ?thesis by simp
qed

subsection \<open>Cells that hold no price\<close>




end
